theory Spec2Isabelle
  imports Main "HOL-Library.Sublist"
begin

section \<open>Python values used by the email index\<close>

text \<open>
  An exception is its class name and its message; \<open>str(e)\<close> is the message.
  The source distinguishes \<open>HttpError\<close> from every other \<open>Exception\<close>, and
  \<open>AttributeError\<close>, \<open>ValueError\<close>, \<open>TypeError\<close> from the rest.
\<close>

datatype exn = Exn (exn_class: string) (exn_msg: string)

definition nl :: string where
  "nl = [CHR 0x0A]"

definition sq :: string where
  "sq = [CHR 0x27]"

definition indent :: string where
  "indent = replicate 12 (CHR '' '')"

text \<open>\<open>str(n)\<close> for a Python int: decimal digits, a minus sign when negative.\<close>

definition digit_char :: "int \<Rightarrow> char" where
  "digit_char d = char_of (48 + d)"

function show_digits :: "int \<Rightarrow> string" where
  "show_digits n =
     (if n < 10 then [digit_char n] else show_digits (n div 10) @ [digit_char (n mod 10)])"
  by pat_completeness auto
termination
  by (relation "measure nat") auto

declare show_digits.simps [simp del]

definition show_int :: "int \<Rightarrow> string" where
  "show_int i = (if i < 0 then ''-'' @ show_digits (- i) else show_digits i)"

text \<open>\<open>str(timestamp)\<close> inside the f-string: \<open>None\<close> prints as \<open>None\<close>.\<close>

definition show_timestamp :: "int option \<Rightarrow> string" where
  "show_timestamp t = (case t of None \<Rightarrow> ''None'' | Some i \<Rightarrow> show_int i)"

text \<open>
  \<open>str.strip()\<close> and \<open>str.lower()\<close>. A character is a code point below 256; the
  white space that \<open>strip\<close> removes there is the space, the characters 9 to 13, the
  separators 28 to 31, the next-line character 133 and the no-break space 160.
\<close>

definition is_space :: "char \<Rightarrow> bool" where
  "is_space c =
     (let n = (of_char c :: int)
      in n = 32 \<or> (9 \<le> n \<and> n \<le> 13) \<or> (28 \<le> n \<and> n \<le> 31) \<or> n = 133 \<or> n = 160)"

definition strip :: "string \<Rightarrow> string" where
  "strip s = rev (dropWhile is_space (rev (dropWhile is_space s)))"

definition lower_char :: "char \<Rightarrow> char" where
  "lower_char c =
     (if 65 \<le> (of_char c :: int) \<and> (of_char c :: int) \<le> 90 then char_of (of_char c + (32::int)) else c)"

definition lower :: "string \<Rightarrow> string" where
  "lower s = map lower_char s"

section \<open>email_downloader.py: the raw item and the Document\<close>

text \<open>
  The dictionary appended by \<open>fetch_emails_for_embedding\<close>: the keys
  \<open>id\<close> (here \<open>email_id\<close>), \<open>sender\<close>, \<open>date\<close>, \<open>subject\<close>, \<open>body\<close>, all strings.
\<close>

record email_data =
  email_id :: string
  sender :: string
  date :: string
  subject :: string
  body :: string

text \<open>The metadata dictionary of a Document, with the keys the source writes.\<close>

record metadata =
  source :: string
  message_id :: string
  md_sender :: string
  date_str :: string
  md_subject :: string
  timestamp :: "int option"

record document =
  page_content :: string
  doc_metadata :: metadata

text \<open>
  The date parser is the standard library's \<open>parsedate_to_datetime\<close> followed by
  \<open>int(dt_obj.timestamp())\<close>. It is a parameter: \<open>Inl e\<close> when either call raises,
  \<open>Inr None\<close> when \<open>dt_obj\<close> is falsy, \<open>Inr (Some t)\<close> otherwise.
\<close>

type_synonym date_parser = "string \<Rightarrow> exn + int option"

text \<open>The \<open>try\<close> block of the loop body: \<open>timestamp\<close> stays \<open>None\<close> on any exception.\<close>

definition parse_timestamp :: "date_parser \<Rightarrow> email_data \<Rightarrow> int option" where
  "parse_timestamp parsedate_to_datetime e =
     (case parsedate_to_datetime (date e) of
        Inl date_parse_error \<Rightarrow> None
      | Inr dt_obj \<Rightarrow> dt_obj)"

text \<open>The \<open>Document(page_content=f"""...""", metadata={...})\<close> expression.\<close>

definition make_document :: "email_data \<Rightarrow> int option \<Rightarrow> document" where
  "make_document e ts =
     \<lparr> page_content =
         nl @ indent @ sq @ ''sender'' @ sq @ '': '' @ sender e @ '','' @
         nl @ indent @ sq @ ''date_str'' @ sq @ '': '' @ date e @ '','' @
         nl @ indent @ sq @ ''subject'' @ sq @ '': '' @ subject e @ '','' @
         nl @ indent @ sq @ ''timestamp'' @ sq @ '': '' @ show_timestamp ts @
         nl @ indent @ sq @ ''body'' @ sq @ '':'' @ body e @
         nl @ indent,
       doc_metadata =
         \<lparr> source = ''gmail'',
           message_id = email_id e,
           md_sender = sender e,
           date_str = date e,
           md_subject = subject e,
           timestamp = ts \<rparr> \<rparr>"

text \<open>
  The loop of \<open>create_langchain_documents_from_emails\<close>, with its three accumulators
  \<open>documents\<close>, \<open>doc_ids\<close> and \<open>skipped_count\<close>. The count is only printed by the
  source; the model returns it as the third component.
\<close>

fun create_loop ::
  "date_parser \<Rightarrow> email_data list \<Rightarrow> document list \<Rightarrow> string list \<Rightarrow> nat
     \<Rightarrow> document list \<times> string list \<times> nat" where
  "create_loop p [] documents doc_ids skipped_count = (documents, doc_ids, skipped_count)"
| "create_loop p (e # es) documents doc_ids skipped_count =
     (let ts = parse_timestamp p e;
          doc = make_document e ts
      in if page_content doc \<noteq> [] \<and> email_id e \<noteq> []
         then create_loop p es (documents @ [doc]) (doc_ids @ [email_id e]) skipped_count
         else create_loop p es documents doc_ids (skipped_count + 1))"

definition create_langchain_documents_from_emails ::
  "date_parser \<Rightarrow> email_data list \<Rightarrow> document list \<times> string list \<times> nat" where
  "create_langchain_documents_from_emails p email_data_list = create_loop p email_data_list [] [] 0"

section \<open>email_downloader.py: the harvester\<close>

text \<open>
  The Gmail API is external. A message part (the payload is one) is a dictionary with the
  optional keys \<open>mimeType\<close>, \<open>headers\<close>, \<open>body\<close> and \<open>parts\<close>; the dictionary
  with none of them is the empty, falsy one. A header has the optional keys \<open>name\<close> and
  \<open>value\<close>; a body has the optional key \<open>data\<close>.
\<close>

record header =
  name :: "string option"
  val :: "string option"

datatype part_body = PartBody (data: "string option")

datatype part =
  Part (mimeType: "string option") (headers: "header list option")
       (pbody: "part_body option") (parts: "part list option")

text \<open>
  The answer of \<open>messages().list(...).execute()\<close>: it raises, or it is a response with an
  optional \<open>messages\<close> key (the message ids) and, when it carries a \<open>nextPageToken\<close>,
  the answer that the call with that page token will get.
\<close>

datatype list_response =
  Raises exn
| LastPage "string list option"
| NextPage "string list option" string list_response

text \<open>
  The service handle: what the list call answers for a query, and what
  \<open>messages().get(id)\<close> answers: it raises, or returns a message whose \<open>payload\<close>
  key is optional.
\<close>

record service =
  messages_list :: "string \<Rightarrow> list_response"
  messages_get :: "string \<Rightarrow> exn + part option"

text \<open>
  The base64 decoder \<open>base64.urlsafe_b64decode(data + '===').decode('utf-8', errors='replace')\<close>
  is a parameter; \<open>Inl e\<close> when it raises.
\<close>

type_synonym decoder = "string \<Rightarrow> exn + string"

text \<open>
  The \<open>while 'nextPageToken' in response\<close> loop of \<open>list_messages\<close>. The argument is the
  answer to the call made inside the loop; a page without \<open>messages\<close> breaks the loop.
  \<open>None\<close> is the \<open>return None\<close> of both \<open>except\<close> clauses.
\<close>

fun page_loop :: "list_response \<Rightarrow> string list \<Rightarrow> string list option" where
  "page_loop (Raises error) messages = None"
| "page_loop (LastPage None) messages = Some messages"
| "page_loop (LastPage (Some ms)) messages = Some (messages @ ms)"
| "page_loop (NextPage None page_token response) messages = Some messages"
| "page_loop (NextPage (Some ms) page_token response) messages = page_loop response (messages @ ms)"

definition list_messages :: "service \<Rightarrow> string \<Rightarrow> string list option" where
  "list_messages svc query =
     (case messages_list svc query of
        Raises error \<Rightarrow> None
      | LastPage ms \<Rightarrow> Some (case ms of None \<Rightarrow> [] | Some m \<Rightarrow> m)
      | NextPage ms page_token response \<Rightarrow>
          page_loop response (case ms of None \<Rightarrow> [] | Some m \<Rightarrow> m))"

definition get_message :: "service \<Rightarrow> string \<Rightarrow> part option option" where
  "get_message svc msg_id =
     (case messages_get svc msg_id of
        Inl error \<Rightarrow> None
      | Inr message \<Rightarrow> Some message)"

text \<open>
  \<open>parse_message_parts\<close>: the first \<open>text/plain\<close> part with data, depth first.
  \<open>part_body.get('data')\<close> raises \<open>AttributeError\<close> when the part has no \<open>body\<close>.
\<close>

definition attribute_error :: exn where
  "attribute_error = Exn ''AttributeError'' (sq @ ''NoneType'' @ sq @ '' object has no attribute '' @ sq @ ''get'' @ sq)"

fun parse_message_parts :: "decoder \<Rightarrow> part list \<Rightarrow> exn + string" where
  "parse_message_parts dec [] = Inr []"
| "parse_message_parts dec (Part mime hs b sub # rest) =
     (case b of
        None \<Rightarrow> Inl attribute_error
      | Some (PartBody d) \<Rightarrow>
          if mime = Some ''text/plain'' \<and> d \<noteq> None \<and> d \<noteq> Some []
          then (case dec (the d) of
                  Inl decode_error \<Rightarrow> Inr ''[Decoding Error]''
                | Inr decoded_data \<Rightarrow> Inr decoded_data)
          else (case sub of
                  None \<Rightarrow> parse_message_parts dec rest
                | Some ps \<Rightarrow>
                    (case parse_message_parts dec ps of
                       Inl error \<Rightarrow> Inl error
                     | Inr found_body \<Rightarrow>
                         if found_body \<noteq> [] then Inr found_body
                         else parse_message_parts dec rest)))"

text \<open>
  The loop over the headers, on the variables \<open>subject\<close>, \<open>sender\<close>, \<open>date\<close>:
  a later header of the same name overwrites an earlier one.
\<close>

fun header_loop :: "header list \<Rightarrow> string \<times> string \<times> string \<Rightarrow> string \<times> string \<times> string" where
  "header_loop [] acc = acc"
| "header_loop (h # hs) (subject_v, sender_v, date_v) =
     (let n = lower (case name h of None \<Rightarrow> [] | Some x \<Rightarrow> x);
          v = (case val h of None \<Rightarrow> [] | Some x \<Rightarrow> x)
      in if n = ''subject'' then header_loop hs (v, sender_v, date_v)
         else if n = ''from'' then header_loop hs (subject_v, v, date_v)
         else if n = ''date'' then header_loop hs (subject_v, sender_v, v)
         else header_loop hs (subject_v, sender_v, date_v))"

text \<open>The body of a payload: from its parts, else from its own data, else a placeholder.\<close>

definition payload_body :: "decoder \<Rightarrow> part \<Rightarrow> exn + string" where
  "payload_body dec payload =
     (case parts payload of
        Some ps \<Rightarrow> parse_message_parts dec ps
      | None \<Rightarrow>
          (case pbody payload of
             Some (PartBody (Some d)) \<Rightarrow>
               if d \<noteq> [] then
                 (case dec d of
                    Inl decode_error \<Rightarrow> Inr ''[Decoding Error]''
                  | Inr b \<Rightarrow> Inr b)
               else Inr ''[No Body Found]''
           | _ \<Rightarrow> Inr ''[No Body Found]''))"

definition is_empty_dict :: "part \<Rightarrow> bool" where
  "is_empty_dict p = (mimeType p = None \<and> headers p = None \<and> pbody p = None \<and> parts p = None)"

text \<open>
  The \<open>for\<close> loop of \<open>fetch_emails_for_embedding\<close>. \<open>Inl e\<close> is an exception leaving
  the loop, which the enclosing \<open>try\<close> catches.
\<close>

fun fetch_loop :: "decoder \<Rightarrow> service \<Rightarrow> string list \<Rightarrow> email_data list \<Rightarrow> exn + email_data list" where
  "fetch_loop dec svc [] structured_emails = Inr structured_emails"
| "fetch_loop dec svc (msg_id # rest) structured_emails =
     (case get_message svc msg_id of
        None \<Rightarrow> fetch_loop dec svc rest structured_emails
      | Some None \<Rightarrow> fetch_loop dec svc rest structured_emails
      | Some (Some payload) \<Rightarrow>
          if is_empty_dict payload then fetch_loop dec svc rest structured_emails
          else
            (let (subject_v, sender_v, date_v) =
                   header_loop (case headers payload of None \<Rightarrow> [] | Some hs \<Rightarrow> hs) ([], [], [])
             in case payload_body dec payload of
                  Inl error \<Rightarrow> Inl error
                | Inr b \<Rightarrow>
                    fetch_loop dec svc rest
                      (structured_emails @
                         [\<lparr> email_id = msg_id, sender = sender_v, date = date_v,
                            subject = subject_v, body = strip b \<rparr>])))"

text \<open>
  \<open>fetch_emails_for_embedding\<close>: every failure of the list call and every exception in the
  loop ends in \<open>return []\<close>. \<open>max_results\<close> is \<open>None\<close> or a count.
\<close>

definition fetch_emails_for_embedding ::
  "decoder \<Rightarrow> service \<Rightarrow> string \<Rightarrow> nat option \<Rightarrow> email_data list" where
  "fetch_emails_for_embedding dec svc query max_results =
     (case list_messages svc query of
        None \<Rightarrow> []
      | Some messages_info \<Rightarrow>
          if messages_info = [] then []
          else
            (let messages_to_process =
                   (case max_results of None \<Rightarrow> messages_info | Some n \<Rightarrow> take n messages_info)
             in case fetch_loop dec svc messages_to_process [] of
                  Inl error \<Rightarrow> []
                | Inr structured_emails \<Rightarrow> structured_emails))"

section \<open>The vector index\<close>

text \<open>
  Modelled from the spec: the vector index is the Chroma library class, which is not code
  of this repository. Sections 3 and 4.2 of the specification give its contract: entries
  are keyed by a stable id, an upsert of an existing id replaces the entry and never
  duplicates it, a failed write leaves the state unchanged, \<open>similarity_search\<close>
  returns at most \<open>k\<close> entries matching the filter by increasing distance, and
  \<open>all_metadata\<close> enumerates the metadata of every entry. The entries are kept in
  insertion order; the embedding distance between a query and a document is a parameter.
\<close>

type_synonym store = "(string \<times> document) list"

fun upsert :: "string \<Rightarrow> document \<Rightarrow> store \<Rightarrow> store" where
  "upsert i d [] = [(i, d)]"
| "upsert i d ((j, d') # s) = (if j = i then (i, d) # s else (j, d') # upsert i d s)"

definition upsert_all :: "document list \<Rightarrow> string list \<Rightarrow> store \<Rightarrow> store" where
  "upsert_all documents ids s = fold (\<lambda>(i, d). upsert i d) (zip ids documents) s"

definition similarity_search ::
  "(string \<Rightarrow> document \<Rightarrow> int) \<Rightarrow> string \<Rightarrow> nat \<Rightarrow> (document \<Rightarrow> bool) option \<Rightarrow> store
     \<Rightarrow> document list" where
  "similarity_search dist query_text k flt s =
     take k (sort_key (dist query_text)
       (filter (case flt of None \<Rightarrow> (\<lambda>d. True) | Some f \<Rightarrow> f) (map snd s)))"

definition all_metadata :: "store \<Rightarrow> metadata list" where
  "all_metadata s = map (\<lambda>(i, d). doc_metadata d) s"

section \<open>The environment of vector_store.py\<close>

text \<open>
  What the code calls outside the repository's core, one field per call:
  whether the import of \<open>email_downloader\<close> succeeded; the outcome of
  \<open>authenticate_gmail()\<close>, whose credential handling is outside the index: it raises
  (the OAuth flow or the token file), returns \<open>None\<close> (no credentials file, or the
  service cannot be built), or returns a service;
  \<open>(datetime.now() - timedelta(days=n)).strftime('%Y/%m/%d')\<close>; the date parser and the
  base64 decoder; whether \<open>Chroma(persist_directory=...)\<close> raises; whether a write
  (\<open>add_documents\<close>, \<open>from_documents\<close>) raises; whether \<open>SelfQueryRetriever.from_llm\<close>
  raises; the auxiliary reasoning step that builds a filter from a query; the embedding
  distance; and the document chain that writes the answer.
\<close>

record env =
  downloader_imported :: bool
  authenticate_gmail :: "exn + service option"
  date_days_ago :: "int \<Rightarrow> exn + string"
  parsedate_to_datetime :: date_parser
  b64decode :: decoder
  chroma_open :: "exn option"
  store_write :: "exn option"
  from_llm :: "exn option"
  query_constructor :: "string \<Rightarrow> exn + (document \<Rightarrow> bool)"
  distance :: "string \<Rightarrow> document \<Rightarrow> int"
  document_chain :: "string \<Rightarrow> document list \<Rightarrow> exn + string option"

text \<open>
  The persisted index location is a directory: \<open>None\<close> when it does not exist,
  \<open>Some s\<close> when it exists and holds the entries \<open>s\<close> (an empty directory holds
  none); \<open>entries\<close> reads them. The trace records the calls that reach outside,
  in order.
\<close>

datatype event =
  EvRmtree
| EvMakedirs
| EvChromaOpen
| EvAuthenticate
| EvFetch string
| EvAddDocuments "string list"
| EvFromDocuments "string list"

record world =
  disk :: "store option"
  trace :: "event list"

definition entries :: "world \<Rightarrow> store" where
  "entries w = (case disk w of None \<Rightarrow> [] | Some s \<Rightarrow> s)"

definition log_event :: "event \<Rightarrow> world \<Rightarrow> world" where
  "log_event ev w = w\<lparr>trace := trace w @ [ev]\<rparr>"

definition none_not_callable :: exn where
  "none_not_callable = Exn ''TypeError'' (sq @ ''NoneType'' @ sq @ '' object is not callable'')"

text \<open>
  The calls \<open>vector_store.add_documents(documents=..., ids=...)\<close> and
  \<open>Chroma.from_documents(..., ids=..., persist_directory=...)\<close> on the directory.
\<close>

definition add_documents :: "env \<Rightarrow> document list \<Rightarrow> string list \<Rightarrow> world \<Rightarrow> exn option \<times> world" where
  "add_documents E documents ids w =
     (let w' = log_event (EvAddDocuments ids) w
      in case store_write E of
           Some error \<Rightarrow> (Some error, w')
         | None \<Rightarrow>
             (None, w'\<lparr>disk := Some (upsert_all documents ids (entries w))\<rparr>))"

definition from_documents :: "env \<Rightarrow> document list \<Rightarrow> string list \<Rightarrow> world \<Rightarrow> exn option \<times> world" where
  "from_documents E documents ids w =
     (let w' = log_event (EvFromDocuments ids) w
      in case store_write E of
           Some error \<Rightarrow> (Some error, w')
         | None \<Rightarrow>
             (None, w'\<lparr>disk := Some (upsert_all documents ids (entries w))\<rparr>))"

text \<open>\<open>Chroma(persist_directory=..., embedding_function=...)\<close>: opens what the directory holds.\<close>

definition Chroma :: "env \<Rightarrow> world \<Rightarrow> exn option \<times> world" where
  "Chroma E w =
     (let w' = log_event EvChromaOpen w
      in case chroma_open E of
           Some error \<Rightarrow> (Some error, w')
         | None \<Rightarrow> (None, w'\<lparr>disk := Some (entries w)\<rparr>))"

section \<open>vector_store.py: the manual update\<close>

definition update_failed :: "exn \<Rightarrow> bool \<times> string" where
  "update_failed update_err = (False, ''An error occurred during the update: '' @ exn_msg update_err)"

definition update_email_vector_store_manual ::
  "env \<Rightarrow> string \<Rightarrow> int \<Rightarrow> world \<Rightarrow> (bool \<times> string) \<times> world" where
  "update_email_vector_store_manual E persist_dir days_to_check w =
     (if disk w = None
      then ((False, ''Error: Vector store directory not found at '' @ persist_dir @ ''. Cannot update.''), w)
      else
        (case Chroma E w of
           (Some update_err, w1) \<Rightarrow> (update_failed update_err, w1)
         | (None, w1) \<Rightarrow>
        (case date_days_ago E days_to_check of
           Inl update_err \<Rightarrow> (update_failed update_err, w1)
         | Inr update_since_date \<Rightarrow>
        (let update_query = ''after:'' @ update_since_date
         in if \<not> downloader_imported E then (update_failed none_not_callable, w1)
            else
        (let w2 = log_event EvAuthenticate w1
         in case authenticate_gmail E of
              Inl update_err \<Rightarrow> (update_failed update_err, w2)
            | Inr None \<Rightarrow> ((False, ''Update failed: Gmail authentication failed.''), w2)
            | Inr (Some gmail_service) \<Rightarrow>
        (let w3 = log_event (EvFetch update_query) w2;
             emails_data = fetch_emails_for_embedding (b64decode E) gmail_service update_query None
         in if emails_data = []
            then ((True, ''No new emails found since '' @ update_since_date @ ''.''), w3)
            else
        (case create_langchain_documents_from_emails (parsedate_to_datetime E) emails_data of
           (new_documents, new_doc_ids, skipped) \<Rightarrow>
             if new_documents = []
             then ((True, ''Fetched emails, but no valid new documents were created to add.''), w3)
             else
               (case add_documents E new_documents new_doc_ids w3 of
                  (Some update_err, w4) \<Rightarrow> (update_failed update_err, w4)
                | (None, w4) \<Rightarrow>
                    ((True, ''Successfully added/updated '' @ show_int (int (length new_documents))
                              @ '' email documents.''), w4)))))))))"

section \<open>vector_store.py: initialisation, rebuild and the update on startup\<close>

text \<open>The values of config.py that the index code reads.\<close>

record config =
  EMAIL_DB_DIRECTORY :: string
  REBUILD_EMAIL_VECTOR_STORE :: bool
  UPDATE_EMAIL_ON_STARTUP :: bool
  EMAIL_UPDATE_WINDOW_DAYS :: int
  TIME_FRAME_FOR_EMAIL_VECTOR_STORE_BUILD :: string
  NUMBER_OF_EMAILS_RETRIEVED :: nat
  USE_EMAIL_SELF_QUERY :: bool

text \<open>
  How \<open>initialize_email_vector_store\<close> ends: it returns the store, \<open>st.stop()\<close> halts
  the script after \<open>st.error(msg)\<close>, or an exception leaves the function.
\<close>

datatype init_result = Ready | Stopped string | Raised exn

definition rmtree :: "world \<Rightarrow> world" where
  "rmtree w = log_event EvRmtree (w\<lparr>disk := None\<rparr>)"

definition makedirs :: "world \<Rightarrow> world" where
  "makedirs w = log_event EvMakedirs (w\<lparr>disk := Some (entries w)\<rparr>)"

definition open_or_raise :: "env \<Rightarrow> world \<Rightarrow> init_result \<times> world" where
  "open_or_raise E w =
     (case Chroma E w of
        (Some error, w') \<Rightarrow> (Raised error, w')
      | (None, w') \<Rightarrow> (Ready, w'))"

text \<open>The branch \<open>if config.REBUILD_EMAIL_VECTOR_STORE:\<close>.\<close>

definition rebuild_branch :: "env \<Rightarrow> config \<Rightarrow> world \<Rightarrow> init_result \<times> world" where
  "rebuild_branch E cfg w =
     (let w1 = (if disk w \<noteq> None then rmtree w else w);
          w2 = makedirs w1
      in if \<not> downloader_imported E
         then (Stopped ''Email downloader functions not available. Cannot rebuild email store.'', w2)
         else
           (let w3 = log_event EvAuthenticate w2
            in case authenticate_gmail E of
                 Inl error \<Rightarrow> (Raised error, w3)
               | Inr None \<Rightarrow> (Stopped ''Gmail authentication failed. Cannot rebuild email store.'', w3)
               | Inr (Some gmail_service) \<Rightarrow>
                   (let query = ''newer_than:'' @ TIME_FRAME_FOR_EMAIL_VECTOR_STORE_BUILD cfg;
                        w4 = log_event (EvFetch query) w3;
                        emails_data = fetch_emails_for_embedding (b64decode E) gmail_service query None
                    in if emails_data = [] then open_or_raise E w4
                       else
                         (case create_langchain_documents_from_emails (parsedate_to_datetime E) emails_data of
                            (langchain_documents, document_ids, skipped) \<Rightarrow>
                              if langchain_documents = [] then open_or_raise E w4
                              else
                                (case from_documents E langchain_documents document_ids w4 of
                                   (Some error, w5) \<Rightarrow> (Raised error, w5)
                                 | (None, w5) \<Rightarrow> (Ready, w5))))))"

text \<open>The \<open>else\<close> branch: load the existing store, or create an empty one.\<close>

definition load_branch :: "env \<Rightarrow> config \<Rightarrow> world \<Rightarrow> init_result \<times> world" where
  "load_branch E cfg w =
     (if disk w \<noteq> None
      then (case Chroma E w of
              (Some e, w1) \<Rightarrow>
                (Stopped (''Error loading email vector store from '' @ EMAIL_DB_DIRECTORY cfg @ '': ''
                            @ exn_msg e @ ''. Try rebuilding.''), w1)
            | (None, w1) \<Rightarrow> (Ready, w1))
      else open_or_raise E (makedirs w))"

text \<open>
  The block \<open>if not config.REBUILD_EMAIL_VECTOR_STORE and config.UPDATE_EMAIL_ON_STARTUP:\<close>.
  Only \<open>AttributeError\<close>, \<open>ValueError\<close> and \<open>TypeError\<close> of the date computation are
  caught; a failed write is caught and reported as a warning.
\<close>

definition startup_update :: "env \<Rightarrow> config \<Rightarrow> world \<Rightarrow> init_result \<times> world" where
  "startup_update E cfg w =
     (if \<not> downloader_imported E then (Ready, w)
      else
        (let w1 = log_event EvAuthenticate w
         in case authenticate_gmail E of
              Inl error \<Rightarrow> (Raised error, w1)
            | Inr None \<Rightarrow> (Ready, w1)
            | Inr (Some gmail_service) \<Rightarrow>
                (case date_days_ago E (EMAIL_UPDATE_WINDOW_DAYS cfg) of
                   Inl e \<Rightarrow>
                     if exn_class e \<in> {''AttributeError'', ''ValueError'', ''TypeError''}
                     then (Ready, w1) else (Raised e, w1)
                 | Inr update_since_date \<Rightarrow>
                     (let query = ''after:'' @ update_since_date;
                          w2 = log_event (EvFetch query) w1;
                          emails_data = fetch_emails_for_embedding (b64decode E) gmail_service query None
                      in if emails_data = [] then (Ready, w2)
                         else
                           (case create_langchain_documents_from_emails (parsedate_to_datetime E) emails_data of
                              (langchain_documents, document_ids, skipped) \<Rightarrow>
                                if langchain_documents = [] then (Ready, w2)
                                else (Ready, snd (add_documents E langchain_documents document_ids w2)))))))"

definition initialize_email_vector_store :: "env \<Rightarrow> config \<Rightarrow> world \<Rightarrow> init_result \<times> world" where
  "initialize_email_vector_store E cfg w =
     (case (if REBUILD_EMAIL_VECTOR_STORE cfg then rebuild_branch E cfg w else load_branch E cfg w) of
        (Ready, w1) \<Rightarrow>
          if \<not> REBUILD_EMAIL_VECTOR_STORE cfg \<and> UPDATE_EMAIL_ON_STARTUP cfg
          then startup_update E cfg w1
          else (Ready, w1)
      | r \<Rightarrow> r)"

section \<open>vector_store.py and email_tool.py: retrieval\<close>

text \<open>
  Modelled from the spec: the retriever classes are library code. By section 4.4 the
  Standard strategy is \<open>similarity_search(query_text, k)\<close> with no filter, and the
  Self-Query strategy asks the auxiliary reasoning step for a filter and calls
  \<open>similarity_search(query_text, k, filter)\<close>; the source puts no handler of its own
  between that step and the caller of the retriever.
\<close>

datatype retriever = StandardRetriever nat | SelfQueryRetriever nat

definition retrieve :: "env \<Rightarrow> retriever \<Rightarrow> store \<Rightarrow> string \<Rightarrow> exn + document list" where
  "retrieve E r s query_text =
     (case r of
        StandardRetriever k \<Rightarrow> Inr (similarity_search (distance E) query_text k None s)
      | SelfQueryRetriever k \<Rightarrow>
          (case query_constructor E query_text of
             Inl error \<Rightarrow> Inl error
           | Inr f \<Rightarrow> Inr (similarity_search (distance E) query_text k (Some f) s)))"

definition get_email_standard_retriever :: "config \<Rightarrow> retriever" where
  "get_email_standard_retriever cfg = StandardRetriever (NUMBER_OF_EMAILS_RETRIEVED cfg)"

text \<open>The \<open>try\<close> around \<open>SelfQueryRetriever.from_llm\<close>, with its fallback.\<close>

definition get_email_self_query_retriever :: "env \<Rightarrow> config \<Rightarrow> retriever" where
  "get_email_self_query_retriever E cfg =
     (case from_llm E of
        None \<Rightarrow> SelfQueryRetriever (NUMBER_OF_EMAILS_RETRIEVED cfg)
      | Some e \<Rightarrow> get_email_standard_retriever cfg)"

text \<open>The choice made in agent_factory.py.\<close>

definition email_retriever :: "env \<Rightarrow> config \<Rightarrow> retriever" where
  "email_retriever E cfg =
     (if USE_EMAIL_SELF_QUERY cfg then get_email_self_query_retriever E cfg
      else get_email_standard_retriever cfg)"

text \<open>
  The tool's input is a dictionary (with or without the key \<open>input\<close>), a string, or
  something else. The session state holds \<open>last_used_context\<close>.
\<close>

datatype tool_input = DictInput "string option" | StrInput string | OtherInput

definition invoke_email_rag_chain ::
  "env \<Rightarrow> retriever \<Rightarrow> store \<Rightarrow> tool_input \<Rightarrow> string \<times> document list option" where
  "invoke_email_rag_chain E r s input_dict =
     (case (case input_dict of
              DictInput (Some q) \<Rightarrow> Some q
            | StrInput q \<Rightarrow> Some q
            | _ \<Rightarrow> None) of
        None \<Rightarrow> (''Error: Invalid input format for Email RAG tool.'', None)
      | Some query \<Rightarrow>
          (case retrieve E r s query of
             Inl e \<Rightarrow> (''Error invoking Email RAG chain: '' @ exn_msg e, None)
           | Inr context \<Rightarrow>
               (case document_chain E query context of
                  Inl e \<Rightarrow> (''Error invoking Email RAG chain: '' @ exn_msg e, None)
                | Inr answer \<Rightarrow>
                    (case answer of
                       None \<Rightarrow> ''Error: Could not generate answer from context.''
                     | Some a \<Rightarrow> a,
                     if context \<noteq> [] then Some context else None))))"

section \<open>What the operator reads in an update result\<close>

text \<open>
  The states of the pair returned by the manual update, told apart by the flag and by the
  fixed wording of the message: a count of documents, nothing new, and a failure that
  comes with a reason, that is, whose message says more than the opening words the source
  puts before the text of an exception.
\<close>

definition reports_added :: "nat \<Rightarrow> bool \<times> string \<Rightarrow> bool" where
  "reports_added n r =
     (r = (True, ''Successfully added/updated '' @ show_int (int n) @ '' email documents.''))"



section \<open>A sample mailbox\<close>

text \<open>
  Concrete inputs on which the definitions are run: a date parser that knows one date,
  a decoder that knows one encoding, and three messages. The first is a plain-text
  message; the second is a multipart message with no parts and a date that does not
  parse; the third has a part without a \<open>body\<close> key. The get call fails for every
  other id, such as \<open>m9\<close>. The index starts with one document under \<open>m0\<close>, for
  which \<open>doc_new\<close> is a later version.
\<close>

definition parser_ex :: date_parser where
  "parser_ex s =
     (if s = ''Tue, 06 May 2025 10:00:00 +0000'' then Inr (Some 1746525600)
      else Inl (Exn ''ValueError'' ''Invalid date value or format''))"

definition decoder_ex :: decoder where
  "decoder_ex d =
     (if d = ''SGVsbG8='' then Inr ''Hello''
      else Inl (Exn ''Error'' ''Incorrect padding''))"

definition payload_m1 :: part where
  "payload_m1 =
     Part (Some ''text/plain'')
       (Some [\<lparr>name = Some ''From'', val = Some ''dean@school.org''\<rparr>,
              \<lparr>name = Some ''Date'', val = Some ''Tue, 06 May 2025 10:00:00 +0000''\<rparr>,
              \<lparr>name = Some ''Subject'', val = Some ''Lunch''\<rparr>])
       (Some (PartBody (Some ''SGVsbG8='')))
       None"

definition payload_m2 :: part where
  "payload_m2 =
     Part (Some ''multipart/mixed'')
       (Some [\<lparr>name = Some ''From'', val = Some ''coach@school.org''\<rparr>,
              \<lparr>name = Some ''Date'', val = Some ''yesterday''\<rparr>,
              \<lparr>name = Some ''Subject'', val = Some ''Practice''\<rparr>])
       None
       (Some [])"

definition payload_m3 :: part where
  "payload_m3 =
     Part (Some ''multipart/mixed'') (Some []) None
       (Some [Part (Some ''text/html'') None None None])"

definition email_m1 :: email_data where
  "email_m1 =
     \<lparr> email_id = ''m1'', sender = ''dean@school.org'', date = ''Tue, 06 May 2025 10:00:00 +0000'',
       subject = ''Lunch'', body = ''Hello'' \<rparr>"

definition email_m2 :: email_data where
  "email_m2 =
     \<lparr> email_id = ''m2'', sender = ''coach@school.org'', date = ''yesterday'',
       subject = ''Practice'', body = [] \<rparr>"

definition email_noid :: email_data where
  "email_noid =
     \<lparr> email_id = [], sender = ''x@school.org'', date = ''yesterday'',
       subject = ''Lost'', body = ''text'' \<rparr>"

definition get_ex :: "string \<Rightarrow> exn + part option" where
  "get_ex i =
     (if i = ''m1'' then Inr (Some payload_m1)
      else if i = ''m2'' then Inr (Some payload_m2)
      else if i = ''m3'' then Inr (Some payload_m3)
      else Inl (Exn ''HttpError'' ''404 Not Found''))"

definition service_ex :: service where
  "service_ex = \<lparr> messages_list = (\<lambda>q. LastPage (Some [''m1'', ''m2''])), messages_get = get_ex \<rparr>"

definition service_down :: service where
  "service_down =
     \<lparr> messages_list = (\<lambda>q. Raises (Exn ''HttpError'' ''503 Service Unavailable'')),
       messages_get = get_ex \<rparr>"

definition service_partial :: service where
  "service_partial = \<lparr> messages_list = (\<lambda>q. LastPage (Some [''m1'', ''m9''])), messages_get = get_ex \<rparr>"

definition service_broken :: service where
  "service_broken = \<lparr> messages_list = (\<lambda>q. LastPage (Some [''m1'', ''m3''])), messages_get = get_ex \<rparr>"

definition filter_error :: exn where
  "filter_error = Exn ''OutputParserException'' ''Parsing text failed''"

definition env_ex :: env where
  "env_ex =
     \<lparr> downloader_imported = True,
       authenticate_gmail = Inr (Some service_ex),
       date_days_ago = (\<lambda>n. Inr ''2025/05/04''),
       parsedate_to_datetime = parser_ex,
       b64decode = decoder_ex,
       chroma_open = None,
       store_write = None,
       from_llm = None,
       query_constructor = (\<lambda>q. Inl filter_error),
       distance = (\<lambda>q d. int (length (page_content d))),
       document_chain = (\<lambda>q ctx. Inr (Some ''See the email from the dean.'')) \<rparr>"

definition doc_m0 :: document where
  "doc_m0 =
     make_document
       \<lparr> email_id = ''m0'', sender = ''head@school.org'', date = ''Mon, 28 Apr 2025 08:00:00 +0000'',
         subject = ''Welcome'', body = ''Welcome back'' \<rparr>
       (Some 1745827200)"

definition doc_new :: document where
  "doc_new = make_document
       \<lparr> email_id = ''m0'', sender = ''head@school.org'', date = ''Mon, 28 Apr 2025 08:00:00 +0000'',
         subject = ''Welcome (corrected)'', body = ''Welcome back, corrected'' \<rparr>
       (Some 1745827200)"

definition world_ex :: world where
  "world_ex = \<lparr> disk = Some [(''m0'', doc_m0)], trace = [] \<rparr>"

definition world_absent :: world where
  "world_absent = \<lparr> disk = None, trace = [] \<rparr>"

definition cfg_ex :: config where
  "cfg_ex =
     \<lparr> EMAIL_DB_DIRECTORY = ''chroma_db_emails'',
       REBUILD_EMAIL_VECTOR_STORE = True,
       UPDATE_EMAIL_ON_STARTUP = True,
       EMAIL_UPDATE_WINDOW_DAYS = 2,
       TIME_FRAME_FOR_EMAIL_VECTOR_STORE_BUILD = ''60d'',
       NUMBER_OF_EMAILS_RETRIEVED = 15,
       USE_EMAIL_SELF_QUERY = True \<rparr>"

section \<open>The normalizer\<close>

text \<open>
  The text of a Document is the filled template, so it is never empty: the first half
  of the validity check \<open>doc.page_content and email_data['id']\<close> always holds.
\<close>

lemma page_content_nonempty: "page_content (make_document e ts) \<noteq> []"
  by (simp add: make_document_def nl_def)

lemma create_loop_eq:
  "create_loop p es documents doc_ids n =
     (documents @ map (\<lambda>e. make_document e (parse_timestamp p e)) (filter (\<lambda>e. email_id e \<noteq> []) es),
      doc_ids @ map email_id (filter (\<lambda>e. email_id e \<noteq> []) es),
      n + length (filter (\<lambda>e. email_id e = []) es))"
  by (induction es arbitrary: documents doc_ids n) (simp_all add: Let_def page_content_nonempty)

lemma create_eq:
  "create_langchain_documents_from_emails p es =
     (map (\<lambda>e. make_document e (parse_timestamp p e)) (filter (\<lambda>e. email_id e \<noteq> []) es),
      map email_id (filter (\<lambda>e. email_id e \<noteq> []) es),
      length (filter (\<lambda>e. email_id e = []) es))"
  by (simp add: create_langchain_documents_from_emails_def create_loop_eq)

text \<open>The harvester does deliver an item with an id and an empty body.\<close>

lemma fetch_yields_empty_body:
  "fetch_emails_for_embedding decoder_ex service_ex q None = [email_m1, email_m2]"
  by code_simp

text \<open>
  C3. An item with an id and an empty body is claimed to be skipped and counted. The
  normalizer keeps it: run on the single item \<open>email_m2\<close>, whose body is empty, it
  returns one document under the id \<open>m2\<close> and a skip count of zero, whatever the date
  parser does.
\<close>

theorem empty_body_item_is_kept:
  "create_langchain_documents_from_emails p [email_m2] =
     ([make_document email_m2 (parse_timestamp p email_m2)], [''m2''], 0)
   \<and> body email_m2 = []"
  by (simp add: create_eq email_m2_def)

text \<open>
  C4. When the date string of an item that carries an id cannot be parsed, the
  normalizer (a total function: the parser's exception is caught) still returns a document
  for it, whose metadata has no timestamp and whose \<open>date_str\<close> is the raw date string.
\<close>

theorem unparsable_date_still_indexed:
  assumes "create_langchain_documents_from_emails p es = (documents, doc_ids, skipped)"
    and "e \<in> set es" and "email_id e \<noteq> []" and "p (date e) = Inl err"
  shows "\<exists>d \<in> set documents.
           message_id (doc_metadata d) = email_id e \<and>
           timestamp (doc_metadata d) = None \<and>
           date_str (doc_metadata d) = date e \<and>
           d = make_document e None"
proof -
  have ts: "parse_timestamp p e = None" using assms(4) by (simp add: parse_timestamp_def)
  have "make_document e (parse_timestamp p e) \<in> set documents"
    using assms(1-3) by (auto simp: create_eq)
  then have "make_document e None \<in> set documents"
    using ts by simp
  then show ?thesis by (auto simp: make_document_def)
qed

theorem unparsable_date_still_indexed_witness:
  "parser_ex (date email_m2) = Inl (Exn ''ValueError'' ''Invalid date value or format'') \<and>
   (\<exists>d \<in> set (fst (create_langchain_documents_from_emails parser_ex [email_m1, email_m2])).
      message_id (doc_metadata d) = ''m2'' \<and> timestamp (doc_metadata d) = None \<and>
      date_str (doc_metadata d) = ''yesterday'')"
proof -
  let ?r = "create_langchain_documents_from_emails parser_ex [email_m1, email_m2]"
  have h1: "?r = (fst ?r, fst (snd ?r), snd (snd ?r))" by simp
  have h2: "email_m2 \<in> set [email_m1, email_m2]" by simp
  have h3: "email_id email_m2 \<noteq> []" by (simp add: email_m2_def)
  have h4: "parser_ex (date email_m2) = Inl (Exn ''ValueError'' ''Invalid date value or format'')"
    by (simp add: email_m2_def parser_ex_def)
  from unparsable_date_still_indexed [OF h1 h2 h3 h4] show ?thesis
    using h4 by (auto simp: email_m2_def)
qed

text \<open>
  C9. The two lists returned by the normalizer are parallel: they have the same length,
  and at every position the id passed to the index is the \<open>message_id\<close> of the document's
  metadata, whose \<open>source\<close> is \<open>gmail\<close>.
\<close>

theorem normalizer_outputs_parallel:
  assumes "create_langchain_documents_from_emails p es = (documents, doc_ids, skipped)"
  shows "length documents = length doc_ids \<and>
         (\<forall>i < length documents.
            doc_ids ! i = message_id (doc_metadata (documents ! i)) \<and>
            source (doc_metadata (documents ! i)) = ''gmail'')"
  using assms by (auto simp: create_eq make_document_def)

theorem normalizer_outputs_parallel_witness:
  "create_langchain_documents_from_emails parser_ex [email_m1, email_noid, email_m2]
     = (fst (create_langchain_documents_from_emails parser_ex [email_m1, email_noid, email_m2]),
        [''m1'', ''m2''], 1) \<and>
   length (fst (create_langchain_documents_from_emails parser_ex [email_m1, email_noid, email_m2])) = 2 \<and>
   message_id (doc_metadata (fst (create_langchain_documents_from_emails parser_ex [email_m1, email_noid, email_m2]) ! 1)) = ''m2''"
proof -
  let ?r = "create_langchain_documents_from_emails parser_ex [email_m1, email_noid, email_m2]"
  have h: "?r = (fst ?r, [''m1'', ''m2''], 1)"
    by (simp add: create_eq email_m1_def email_m2_def email_noid_def)
  from normalizer_outputs_parallel [OF h]
  have len: "length (fst ?r) = length [''m1'', ''m2'']"
    and idx: "\<forall>i < length (fst ?r).
                [''m1'', ''m2''] ! i = message_id (doc_metadata (fst ?r ! i)) \<and>
                source (doc_metadata (fst ?r ! i)) = ''gmail''"
    by blast+
  from len have "1 < length (fst ?r)" by simp
  with idx have "[''m1'', ''m2''] ! 1 = message_id (doc_metadata (fst ?r ! 1))" by blast
  then show ?thesis using h len by simp
qed

section \<open>The manual update\<close>

text \<open>
  C10. When the index directory does not exist, the manual update returns the failure
  pair at once and the world is untouched: the directory is still absent and the trace
  has no new call, so nothing was opened, authenticated or fetched.
\<close>

theorem update_without_directory:
  assumes "disk w = None"
  shows "update_email_vector_store_manual E persist_dir days_to_check w =
           ((False, ''Error: Vector store directory not found at '' @ persist_dir @ ''. Cannot update.''), w)"
  using assms by (simp add: update_email_vector_store_manual_def)

theorem update_without_directory_witness:
  "disk world_absent = None \<and>
   update_email_vector_store_manual env_ex ''chroma_db_emails'' 2 world_absent =
     ((False, ''Error: Vector store directory not found at chroma_db_emails. Cannot update.''),
      \<lparr>disk = None, trace = []\<rparr>)"
proof -
  have h: "disk world_absent = None" by (simp add: world_absent_def)
  from update_without_directory [OF h, of env_ex "''chroma_db_emails''" 2] show ?thesis
    using h by (simp add: world_absent_def)
qed

section \<open>Upsert into the index\<close>

lemma upsert_same: "upsert i d (upsert i d' s) = upsert i d s"
  by (induction s) auto

lemma map_of_upsert: "map_of (upsert i d s) = (map_of s)(i \<mapsto> d)"
  by (induction s) auto

lemma upsert_commute:
  "i \<noteq> j \<Longrightarrow> map_of s i \<noteq> None \<Longrightarrow> upsert i d (upsert j d' s) = upsert j d' (upsert i d s)"
  by (induction s) auto

lemma length_upsert:
  "length (upsert i d s) = (if map_of s i = None then length s + 1 else length s)"
  by (induction s) auto

lemma map_fst_upsert:
  "map fst (upsert i d s) = (if map_of s i \<noteq> None then map fst s else map fst s @ [i])"
  by (induction s) auto

lemma map_of_None_iff: "(map_of s i = None) = (i \<notin> set (map fst s))"
  by (induction s) auto

lemma upsert_keys_distinct: "distinct (map fst s) \<Longrightarrow> distinct (map fst (upsert i d s))"
  by (simp add: map_fst_upsert map_of_None_iff del: set_map)

lemma map_of_fold_present:
  "map_of s k \<noteq> None \<Longrightarrow> map_of (fold (\<lambda>(i, d). upsert i d) xs s) k \<noteq> None"
  by (induction xs arbitrary: s) (auto simp: map_of_upsert)

lemma map_of_fold_keys:
  "(k, v) \<in> set xs \<Longrightarrow> map_of (fold (\<lambda>(i, d). upsert i d) xs s) k \<noteq> None"
proof (induction xs arbitrary: s)
  case Nil
  then show ?case by simp
next
  case (Cons a xs)
  show ?case
  proof (cases "a = (k, v)")
    case True
    have "map_of (upsert k v s) k \<noteq> None" by (simp add: map_of_upsert)
    then have "map_of (fold (\<lambda>(i, d). upsert i d) xs (upsert k v s)) k \<noteq> None"
      by (rule map_of_fold_present)
    then show ?thesis using True by simp
  next
    case False
    then have "(k, v) \<in> set xs" using Cons.prems by simp
    then show ?thesis using Cons.IH by (cases a) simp
  qed
qed

lemma fold_upsert_absorb:
  "\<forall>(i, d) \<in> set ys. map_of t i \<noteq> None \<Longrightarrow>
   upsert k v (fold (\<lambda>(i, d). upsert i d) ys (upsert k v' t)) = upsert k v (fold (\<lambda>(i, d). upsert i d) ys t)"
proof (induction ys arbitrary: t)
  case Nil
  then show ?case by (simp add: upsert_same)
next
  case (Cons a ys)
  obtain i d where a: "a = (i, d)" by (cases a)
  have it: "map_of t i \<noteq> None" using Cons.prems a by simp
  have sub: "\<forall>(j, d') \<in> set ys. map_of (upsert i d t) j \<noteq> None"
    using Cons.prems by (auto simp: map_of_upsert)
  show ?case
  proof (cases "i = k")
    case True
    then show ?thesis using a by (simp add: upsert_same)
  next
    case False
    have "upsert i d (upsert k v' t) = upsert k v' (upsert i d t)"
      using False it by (rule upsert_commute)
    then show ?thesis using a Cons.IH [OF sub] by simp
  qed
qed

lemma fold_upsert_idem:
  "fold (\<lambda>(i, d). upsert i d) xs (fold (\<lambda>(i, d). upsert i d) xs s) = fold (\<lambda>(i, d). upsert i d) xs s"
proof (induction xs arbitrary: s rule: rev_induct)
  case Nil
  then show ?case by simp
next
  case (snoc a xs)
  obtain k v where a: "a = (k, v)" by (cases a)
  let ?f = "fold (\<lambda>(i, d). upsert i d) xs"
  have sub: "\<forall>(i, d) \<in> set xs. map_of (?f s) i \<noteq> None"
    using map_of_fold_keys by fastforce
  have "upsert k v (?f (upsert k v (?f s))) = upsert k v (?f (?f s))"
    using sub by (rule fold_upsert_absorb)
  then show ?case using a snoc.IH by simp
qed

lemma upsert_all_idem: "upsert_all documents ids (upsert_all documents ids s) = upsert_all documents ids s"
  by (simp add: upsert_all_def fold_upsert_idem)

lemma fold_upsert_distinct:
  "distinct (map fst s) \<Longrightarrow> distinct (map fst (fold (\<lambda>(i, d). upsert i d) xs s))"
  by (induction xs arbitrary: s) (auto simp: upsert_keys_distinct)

lemma entries_add_documents:
  "store_write E = None \<Longrightarrow>
   add_documents E documents ids w =
     (None, \<lparr>disk = Some (upsert_all documents ids (entries w)), trace = trace w @ [EvAddDocuments ids]\<rparr>)"
  by (simp add: add_documents_def log_event_def Let_def)


lemma map_add_upd_rev:
  "(m(i \<mapsto> d)) ++ map_of (rev xs) = m ++ map_of (rev ((i, d) # xs))"
  by (rule ext) (simp add: map_add_def split: option.splits)

lemma map_of_fold_upsert:
  "map_of (fold (\<lambda>(i, d). upsert i d) xs s) = map_of s ++ map_of (rev xs)"
proof (induction xs arbitrary: s)
  case Nil
  then show ?case by simp
next
  case (Cons a xs)
  obtain i d where a: "a = (i, d)" by (cases a)
  have "fold (\<lambda>(i, d). upsert i d) (a # xs) s = fold (\<lambda>(i, d). upsert i d) xs (upsert i d s)"
    using a by simp
  then have "map_of (fold (\<lambda>(i, d). upsert i d) (a # xs) s) = map_of (upsert i d s) ++ map_of (rev xs)"
    by (simp only: Cons.IH)
  also have "\<dots> = (map_of s)(i \<mapsto> d) ++ map_of (rev xs)"
    by (simp only: map_of_upsert)
  also have "\<dots> = map_of s ++ map_of (rev (a # xs))"
    unfolding a by (rule map_add_upd_rev)
  finally show ?case .
qed

lemma keys_fold_upsert:
  "\<exists>new. map fst (fold (\<lambda>(i, d). upsert i d) xs s) = map fst s @ new \<and> distinct new \<and>
         set new = set (map fst xs) - set (map fst s)"
proof (induction xs arbitrary: s)
  case Nil
  then show ?case by simp
next
  case (Cons a xs)
  obtain i d where a: "a = (i, d)" by (cases a)
  from Cons.IH [of "upsert i d s"] obtain new where
    n: "map fst (fold (\<lambda>(i, d). upsert i d) xs (upsert i d s)) = map fst (upsert i d s) @ new"
       "distinct new" "set new = set (map fst xs) - set (map fst (upsert i d s))"
    by blast
  show ?case
  proof (cases "map_of s i = None")
    case True
    then have k: "map fst (upsert i d s) = map fst s @ [i]" by (simp add: map_fst_upsert)
    have ni: "i \<notin> set (map fst s)" using True by (simp add: map_of_None_iff del: set_map)
    have "map fst (fold (\<lambda>(i, d). upsert i d) (a # xs) s) = map fst s @ (i # new)"
      using n(1) k a by simp
    moreover have "distinct (i # new)" using n(2,3) k by auto
    moreover have "set (i # new) = set (map fst (a # xs)) - set (map fst s)"
      using n(3) k a ni by auto
    ultimately show ?thesis by blast
  next
    case False
    then have k: "map fst (upsert i d s) = map fst s" by (simp add: map_fst_upsert)
    have ii: "i \<in> set (map fst s)" using False by (simp add: map_of_None_iff del: set_map)
    have "map fst (fold (\<lambda>(i, d). upsert i d) (a # xs) s) = map fst s @ new"
      using n(1) k a by simp
    moreover have "set new = set (map fst (a # xs)) - set (map fst s)"
      using n(3) k a ii by auto
    ultimately show ?thesis using n(2) by blast
  qed
qed

text \<open>
  C1. Adding the same documents under the same ids a second time leaves the index as the
  first call left it, so \<open>similarity_search\<close> and \<open>all_metadata\<close> answer the same.
  After a call the index maps every id of the batch to the last document given for it and
  every other id to what it held before: an existing entry is replaced. The ids already
  present keep their places and each new id is appended once: nothing is duplicated, and
  ids that were unique stay unique.
\<close>

theorem upsert_idempotent:
  assumes "store_write E = None"
    and "add_documents E documents ids w = (r1, w1)"
    and "add_documents E documents ids w1 = (r2, w2)"
  shows "r1 = None \<and> r2 = None \<and>
         disk w1 = Some (entries w1) \<and> disk w2 = disk w1 \<and>
         similarity_search dist query_text k flt (entries w2) =
           similarity_search dist query_text k flt (entries w1) \<and>
         all_metadata (entries w2) = all_metadata (entries w1) \<and>
         map_of (entries w1) = map_of (entries w) ++ map_of (rev (zip ids documents)) \<and>
         (\<exists>new. map fst (entries w1) = map fst (entries w) @ new \<and> distinct new \<and>
                set new = set (map fst (zip ids documents)) - set (map fst (entries w))) \<and>
         (distinct (map fst (entries w)) \<longrightarrow> distinct (map fst (entries w1)))"
proof -
  have w1: "w1 = \<lparr>disk = Some (upsert_all documents ids (entries w)), trace = trace w @ [EvAddDocuments ids]\<rparr>"
    and r1: "r1 = None"
    using assms(1,2) by (simp_all add: entries_add_documents)
  have e1: "entries w1 = upsert_all documents ids (entries w)"
    using w1 by (simp add: entries_def)
  have d1: "disk w1 = Some (entries w1)" using w1 e1 by simp
  have w2: "disk w2 = Some (upsert_all documents ids (entries w1))" and r2: "r2 = None"
    using assms(1,3) by (auto simp: entries_add_documents)
  have d: "disk w2 = disk w1"
    using w2 e1 w1 by (simp add: upsert_all_idem)
  then have e: "entries w2 = entries w1" by (simp add: entries_def)
  have m: "map_of (entries w1) = map_of (entries w) ++ map_of (rev (zip ids documents))"
    using e1 by (simp add: upsert_all_def map_of_fold_upsert)
  have n: "\<exists>new. map fst (entries w1) = map fst (entries w) @ new \<and> distinct new \<and>
                set new = set (map fst (zip ids documents)) - set (map fst (entries w))"
    unfolding e1 upsert_all_def by (rule keys_fold_upsert)
  have dist: "distinct (map fst (entries w)) \<longrightarrow> distinct (map fst (entries w1))"
    using e1 by (simp add: upsert_all_def fold_upsert_distinct)
  show ?thesis using r1 r2 d1 d e m n dist by simp
qed

theorem upsert_idempotent_witness:
  "store_write env_ex = None \<and>
   entries world_ex = [(''m0'', doc_m0)] \<and>
   entries (snd (add_documents env_ex [doc_m0, doc_new] [''m1'', ''m0''] world_ex))
     = [(''m0'', doc_new), (''m1'', doc_m0)] \<and>
   entries (snd (add_documents env_ex [doc_m0, doc_new] [''m1'', ''m0'']
      (snd (add_documents env_ex [doc_m0, doc_new] [''m1'', ''m0''] world_ex))))
     = [(''m0'', doc_new), (''m1'', doc_m0)]"
proof -
  let ?w1 = "snd (add_documents env_ex [doc_m0, doc_new] [''m1'', ''m0''] world_ex)"
  let ?w2 = "snd (add_documents env_ex [doc_m0, doc_new] [''m1'', ''m0''] ?w1)"
  have h: "store_write env_ex = None" by (simp add: env_ex_def)
  have a1: "add_documents env_ex [doc_m0, doc_new] [''m1'', ''m0''] world_ex = (None, ?w1)"
    using h by (simp add: entries_add_documents)
  have a2: "add_documents env_ex [doc_m0, doc_new] [''m1'', ''m0''] ?w1 = (None, ?w2)"
    using h by (simp add: entries_add_documents)
  from upsert_idempotent [OF h a1 a2] have "disk ?w2 = disk ?w1" by blast
  then have same: "entries ?w2 = entries ?w1" by (simp add: entries_def)
  have prior: "entries world_ex = [(''m0'', doc_m0)]" by (simp add: entries_def world_ex_def)
  have once: "entries ?w1 = [(''m0'', doc_new), (''m1'', doc_m0)]"
    using h by (simp add: entries_add_documents entries_def upsert_all_def world_ex_def)
  show ?thesis using h prior once same by simp
qed

section \<open>The outcomes of the manual update\<close>

lemmas update_unfold =
  update_email_vector_store_manual_def Let_def Chroma_def add_documents_def log_event_def entries_def

text \<open>
  Every run of the manual update ends in one of six ways; only the last one writes.
\<close>

lemma update_outcomes:
  assumes run: "update_email_vector_store_manual E persist_dir days w = (r, w')"
  shows
    "(disk w = None \<and>
      r = (False, ''Error: Vector store directory not found at '' @ persist_dir @ ''. Cannot update.'') \<and> w' = w)
   \<or> (\<exists>e. (chroma_open E = Some e \<or> date_days_ago E days = Inl e \<or>
            (\<not> downloader_imported E \<and> e = none_not_callable) \<or>
            authenticate_gmail E = Inl e \<or> store_write E = Some e) \<and>
           r = update_failed e \<and> disk w' = disk w)
   \<or> (authenticate_gmail E = Inr None \<and>
       r = (False, ''Update failed: Gmail authentication failed.'') \<and> disk w' = disk w)
   \<or> (\<exists>svc d. authenticate_gmail E = Inr (Some svc) \<and> date_days_ago E days = Inr d \<and>
         fetch_emails_for_embedding (b64decode E) svc (''after:'' @ d) None = [] \<and>
         r = (True, ''No new emails found since '' @ d @ ''.'') \<and> disk w' = disk w)
   \<or> (\<exists>svc d. authenticate_gmail E = Inr (Some svc) \<and> date_days_ago E days = Inr d \<and>
         fst (create_langchain_documents_from_emails (parsedate_to_datetime E)
               (fetch_emails_for_embedding (b64decode E) svc (''after:'' @ d) None)) = [] \<and>
         r = (True, ''Fetched emails, but no valid new documents were created to add.'') \<and> disk w' = disk w)
   \<or> (\<exists>svc d docs ids skipped.
         authenticate_gmail E = Inr (Some svc) \<and> date_days_ago E days = Inr d \<and>
         create_langchain_documents_from_emails (parsedate_to_datetime E)
           (fetch_emails_for_embedding (b64decode E) svc (''after:'' @ d) None) = (docs, ids, skipped) \<and>
         docs \<noteq> [] \<and>
         r = (True, ''Successfully added/updated '' @ show_int (int (length docs)) @ '' email documents.'') \<and>
         disk w' = Some (upsert_all docs ids (entries w)) \<and>
         trace w' = trace w @ [EvChromaOpen, EvAuthenticate, EvFetch (''after:'' @ d), EvAddDocuments ids])"
proof (cases "disk w")
  case None
  then show ?thesis using run by (simp add: update_email_vector_store_manual_def)
next
  case (Some s)
  note dk = Some
  show ?thesis
  proof (cases "chroma_open E")
    case (Some e)
    then have "r = update_failed e" "disk w' = disk w"
      using run dk by (auto simp: update_unfold)
    then show ?thesis using Some by blast
  next
    case None
    note co = None
    show ?thesis
    proof (cases "date_days_ago E days")
      case (Inl e)
      then have "r = update_failed e" "disk w' = disk w"
        using run dk co by (auto simp: update_unfold)
      then show ?thesis using Inl by blast
    next
      case (Inr d)
      note dt = Inr
      show ?thesis
      proof (cases "downloader_imported E")
        case False
        then have "r = update_failed none_not_callable" "disk w' = disk w"
          using run dk co dt by (auto simp: update_unfold)
        then show ?thesis using False by blast
      next
        case True
        note imp = True
        show ?thesis
        proof (cases "authenticate_gmail E")
          case (Inl e)
          then have "r = update_failed e" "disk w' = disk w"
            using run dk co dt imp by (auto simp: update_unfold)
          then show ?thesis using Inl by blast
        next
          case (Inr so)
          note au = Inr
          show ?thesis
          proof (cases so)
            case None
            then have "r = (False, ''Update failed: Gmail authentication failed.'')" "disk w' = disk w"
              using run dk co dt imp au by (auto simp: update_unfold)
            then show ?thesis using au None by blast
          next
            case (Some svc)
            note sv = Some
            let ?emails = "fetch_emails_for_embedding (b64decode E) svc (''after:'' @ d) None"
            show ?thesis
            proof (cases "?emails = []")
              case True
              then have "r = (True, ''No new emails found since '' @ d @ ''.'')" "disk w' = disk w"
                using run dk co dt imp au sv by (auto simp: update_unfold)
              then show ?thesis using au sv dt True by blast
            next
              case False
              note em = False
              obtain docs ids skipped where
                cr: "create_langchain_documents_from_emails (parsedate_to_datetime E) ?emails = (docs, ids, skipped)"
                by (cases "create_langchain_documents_from_emails (parsedate_to_datetime E) ?emails")
              show ?thesis
              proof (cases "docs = []")
                case True
                then have "r = (True, ''Fetched emails, but no valid new documents were created to add.'')"
                  "disk w' = disk w"
                  using run dk co dt imp au sv em cr by (auto simp: update_unfold)
                moreover have "fst (create_langchain_documents_from_emails (parsedate_to_datetime E) ?emails) = []"
                  using cr True by simp
                ultimately show ?thesis using au sv dt by blast
              next
                case False
                note dn = False
                show ?thesis
                proof (cases "store_write E")
                  case (Some e)
                  then have "r = update_failed e" "disk w' = disk w"
                    using run dk co dt imp au sv em cr dn by (auto simp: update_unfold)
                  then show ?thesis using Some by blast
                next
                  case None
                  then have
                    "r = (True, ''Successfully added/updated '' @ show_int (int (length docs)) @ '' email documents.'')"
                    "disk w' = Some (upsert_all docs ids (entries w))"
                    "trace w' = trace w @ [EvChromaOpen, EvAuthenticate, EvFetch (''after:'' @ d), EvAddDocuments ids]"
                    using run dk co dt imp au sv em cr dn by (auto simp: update_unfold)
                  then show ?thesis using au sv dt cr dn by blast
                qed
              qed
            qed
          qed
        qed
      qed
    qed
  qed
qed


lemma no_new_emails_is_not_added:
  "\<not> reports_added n (True, ''No new emails found since '' @ x)"
  by (simp add: reports_added_def)

lemma no_valid_documents_is_not_added:
  "\<not> reports_added n (True, ''Fetched emails, but no valid new documents were created to add.'')"
  by (simp add: reports_added_def)






text \<open>
  C5, as stated, fails: when an exception inside the harvester's loop loses the whole
  batch, the harvester returns an empty list and the update reports success.
\<close>

theorem harvest_exception_reported_as_no_new_emails:
  "fetch_loop decoder_ex service_broken [''m1'', ''m3''] [] = Inl attribute_error \<and>
   update_email_vector_store_manual (env_ex\<lparr>authenticate_gmail := Inr (Some service_broken)\<rparr>)
       ''chroma_db_emails'' 2 world_ex =
     ((True, ''No new emails found since 2025/05/04.''),
      \<lparr>disk = disk world_ex, trace = [EvChromaOpen, EvAuthenticate, EvFetch ''after:2025/05/04'']\<rparr>)"
  by code_simp

text \<open>
  C6, as stated, fails: when the list call of the harvester raises an \<open>HttpError\<close>,
  the update returns a success pair.
\<close>

theorem network_failure_reported_as_success:
  "messages_list service_down ''after:2025/05/04'' = Raises (Exn ''HttpError'' ''503 Service Unavailable'') \<and>
   fst (update_email_vector_store_manual (env_ex\<lparr>authenticate_gmail := Inr (Some service_down)\<rparr>)
       ''chroma_db_emails'' 2 world_ex) = (True, ''No new emails found since 2025/05/04.'')"
  by code_simp

lemma fetch_empty_when_list_fails:
  "list_messages svc query = None \<Longrightarrow> fetch_emails_for_embedding dec svc query max_results = []"
  by (simp add: fetch_emails_for_embedding_def)

text \<open>
  Every item that the harvester returns comes from a message whose get call answered.
\<close>

lemma fetch_loop_ids:
  "fetch_loop dec svc ms acc = Inr out \<Longrightarrow> x \<in> set out \<Longrightarrow>
   x \<in> set acc \<or> (email_id x \<in> set ms \<and> get_message svc (email_id x) \<noteq> None)"
proof (induction ms arbitrary: acc)
  case Nil
  then show ?case by simp
next
  case (Cons m ms)
  show ?case
  proof (cases "get_message svc m")
    case None
    then have "fetch_loop dec svc ms acc = Inr out" using Cons.prems(1) by simp
    from Cons.IH [OF this Cons.prems(2)] show ?thesis by auto
  next
    case (Some po)
    note gm = Some
    show ?thesis
    proof (cases po)
      case None
      then have "fetch_loop dec svc ms acc = Inr out" using Cons.prems(1) gm by simp
      from Cons.IH [OF this Cons.prems(2)] show ?thesis by auto
    next
      case (Some payload)
      note pl = Some
      show ?thesis
      proof (cases "is_empty_dict payload")
        case True
        then have "fetch_loop dec svc ms acc = Inr out" using Cons.prems(1) gm pl by simp
        from Cons.IH [OF this Cons.prems(2)] show ?thesis by auto
      next
        case False
        obtain sj sn dt where
          h: "header_loop (case headers payload of None \<Rightarrow> [] | Some hs \<Rightarrow> hs) ([], [], []) = (sj, sn, dt)"
          by (cases "header_loop (case headers payload of None \<Rightarrow> [] | Some hs \<Rightarrow> hs) ([], [], [])")
        show ?thesis
        proof (cases "payload_body dec payload")
          case (Inl e)
          then show ?thesis using Cons.prems(1) gm pl False h by simp
        next
          case (Inr b)
          let ?item = "\<lparr> email_id = m, sender = sn, date = dt, subject = sj, body = strip b \<rparr>"
          have "fetch_loop dec svc ms (acc @ [?item]) = Inr out"
            using Cons.prems(1) gm pl False h Inr by simp
          from Cons.IH [OF this Cons.prems(2)]
          have "x \<in> set acc \<or> x = ?item \<or> (email_id x \<in> set ms \<and> get_message svc (email_id x) \<noteq> None)"
            by auto
          then show ?thesis using gm by auto
        qed
      qed
    qed
  qed
qed

lemma fetch_from_loop:
  assumes "x \<in> set (fetch_emails_for_embedding dec svc query max_results)"
  shows "\<exists>ms out. fetch_loop dec svc ms [] = Inr out \<and> x \<in> set out"
proof (cases "list_messages svc query")
  case None
  then show ?thesis using assms by (simp add: fetch_emails_for_embedding_def)
next
  case (Some mi)
  let ?ms = "case max_results of None \<Rightarrow> mi | Some n \<Rightarrow> take n mi"
  show ?thesis
  proof (cases "mi = []")
    case True
    then show ?thesis using assms Some by (simp add: fetch_emails_for_embedding_def)
  next
    case False
    show ?thesis
    proof (cases "fetch_loop dec svc ?ms []")
      case (Inl e)
      then show ?thesis using assms Some False by (simp add: fetch_emails_for_embedding_def)
    next
      case (Inr out)
      then have "x \<in> set out" using assms Some False by (simp add: fetch_emails_for_embedding_def)
      then show ?thesis using Inr by blast
    qed
  qed
qed

lemma fetch_leaves_out_failed_get:
  assumes "messages_get svc m = Inl e"
  shows "m \<notin> email_id ` set (fetch_emails_for_embedding dec svc query max_results)"
proof
  assume "m \<in> email_id ` set (fetch_emails_for_embedding dec svc query max_results)"
  then obtain x where x: "x \<in> set (fetch_emails_for_embedding dec svc query max_results)" "email_id x = m"
    by auto
  from fetch_from_loop [OF x(1)] obtain ms out where "fetch_loop dec svc ms [] = Inr out" "x \<in> set out"
    by blast
  from fetch_loop_ids [OF this] have "get_message svc (email_id x) \<noteq> None" by simp
  then show False using assms x(2) by (simp add: get_message_def)
qed

text \<open>
  C5, amended. The update reports a count only when it has written: then the index is
  the old one with the complete normalized batch upserted, the count is the number of
  documents of that batch, and the write is the last call, after the fetch. The index
  changes in no other case. Whenever the update reports failure, and so whenever
  authentication gives no service, the index is as it was before the call. When the
  harvester returns nothing (also after a failure of its own, which it swallows) and the
  directory exists, the store opens and authentication gives a service, the update
  returns the success pair saying that no new emails were found, and the index is
  unchanged.
\<close>

theorem update_writes_whole_batch_or_nothing:
  assumes run: "update_email_vector_store_manual E persist_dir days w = (r, w')"
  shows
    "((\<exists>n. reports_added n r) \<longrightarrow>
        (\<exists>svc d docs ids skipped.
           authenticate_gmail E = Inr (Some svc) \<and> date_days_ago E days = Inr d \<and>
           create_langchain_documents_from_emails (parsedate_to_datetime E)
             (fetch_emails_for_embedding (b64decode E) svc (''after:'' @ d) None) = (docs, ids, skipped) \<and>
           docs \<noteq> [] \<and> reports_added (length docs) r \<and>
           disk w' = Some (upsert_all docs ids (entries w)) \<and>
           trace w' = trace w @ [EvChromaOpen, EvAuthenticate, EvFetch (''after:'' @ d), EvAddDocuments ids]))
   \<and> (disk w' \<noteq> disk w \<longrightarrow> (\<exists>n. reports_added n r))
   \<and> (fst r = False \<longrightarrow> disk w' = disk w)
   \<and> ((\<forall>svc. authenticate_gmail E \<noteq> Inr (Some svc)) \<longrightarrow> fst r = False \<and> disk w' = disk w)
   \<and> (\<forall>svc d. disk w \<noteq> None \<and> chroma_open E = None \<and> downloader_imported E \<and>
              authenticate_gmail E = Inr (Some svc) \<and> date_days_ago E days = Inr d \<and>
              fetch_emails_for_embedding (b64decode E) svc (''after:'' @ d) None = []
              \<longrightarrow> r = (True, ''No new emails found since '' @ d @ ''.'') \<and> disk w' = disk w)"
proof -
  let ?written = "\<exists>svc d docs ids skipped.
           authenticate_gmail E = Inr (Some svc) \<and> date_days_ago E days = Inr d \<and>
           create_langchain_documents_from_emails (parsedate_to_datetime E)
             (fetch_emails_for_embedding (b64decode E) svc (''after:'' @ d) None) = (docs, ids, skipped) \<and>
           docs \<noteq> [] \<and> reports_added (length docs) r \<and>
           disk w' = Some (upsert_all docs ids (entries w)) \<and>
           trace w' = trace w @ [EvChromaOpen, EvAuthenticate, EvFetch (''after:'' @ d), EvAddDocuments ids]"
  have p5: "\<forall>svc d. disk w \<noteq> None \<and> chroma_open E = None \<and> downloader_imported E \<and>
              authenticate_gmail E = Inr (Some svc) \<and> date_days_ago E days = Inr d \<and>
              fetch_emails_for_embedding (b64decode E) svc (''after:'' @ d) None = []
              \<longrightarrow> r = (True, ''No new emails found since '' @ d @ ''.'') \<and> disk w' = disk w"
    using run by (auto simp: update_unfold)
  have p14: "((\<exists>n. reports_added n r) \<longrightarrow> ?written)
      \<and> (disk w' \<noteq> disk w \<longrightarrow> (\<exists>n. reports_added n r))
      \<and> (fst r = False \<longrightarrow> disk w' = disk w)
      \<and> ((\<forall>svc. authenticate_gmail E \<noteq> Inr (Some svc)) \<longrightarrow> fst r = False \<and> disk w' = disk w)"
  proof -
    from update_outcomes [OF run] consider
        (failed) "fst r = False" "disk w' = disk w"
      | (nothing_new) svc where "authenticate_gmail E = Inr (Some svc)" "\<forall>n. \<not> reports_added n r"
          "fst r" "disk w' = disk w"
      | (added) svc d docs ids skipped where
          "authenticate_gmail E = Inr (Some svc)" "date_days_ago E days = Inr d"
          "create_langchain_documents_from_emails (parsedate_to_datetime E)
             (fetch_emails_for_embedding (b64decode E) svc (''after:'' @ d) None) = (docs, ids, skipped)"
          "docs \<noteq> []"
          "r = (True, ''Successfully added/updated '' @ show_int (int (length docs)) @ '' email documents.'')"
          "disk w' = Some (upsert_all docs ids (entries w))"
          "trace w' = trace w @ [EvChromaOpen, EvAuthenticate, EvFetch (''after:'' @ d), EvAddDocuments ids]"
    proof -
      assume f: "fst r = False \<Longrightarrow> disk w' = disk w \<Longrightarrow> thesis"
        and n: "\<And>svc. authenticate_gmail E = Inr (Some svc) \<Longrightarrow> \<forall>n. \<not> reports_added n r \<Longrightarrow>
                  fst r \<Longrightarrow> disk w' = disk w \<Longrightarrow> thesis"
        and a: "\<And>svc d docs ids skipped.
          authenticate_gmail E = Inr (Some svc) \<Longrightarrow> date_days_ago E days = Inr d \<Longrightarrow>
          create_langchain_documents_from_emails (parsedate_to_datetime E)
             (fetch_emails_for_embedding (b64decode E) svc (''after:'' @ d) None) = (docs, ids, skipped) \<Longrightarrow>
          docs \<noteq> [] \<Longrightarrow>
          r = (True, ''Successfully added/updated '' @ show_int (int (length docs)) @ '' email documents.'') \<Longrightarrow>
          disk w' = Some (upsert_all docs ids (entries w)) \<Longrightarrow>
          trace w' = trace w @ [EvChromaOpen, EvAuthenticate, EvFetch (''after:'' @ d), EvAddDocuments ids] \<Longrightarrow>
          thesis"
      from update_outcomes [OF run] consider
          (o1) "r = (False, ''Error: Vector store directory not found at '' @ persist_dir @ ''. Cannot update.'')" "w' = w"
        | (o2) e where "r = update_failed e" "disk w' = disk w"
        | (o3) "r = (False, ''Update failed: Gmail authentication failed.'')" "disk w' = disk w"
        | (o4) svc d where "authenticate_gmail E = Inr (Some svc)"
            "r = (True, ''No new emails found since '' @ d @ ''.'')" "disk w' = disk w"
        | (o5) svc where "authenticate_gmail E = Inr (Some svc)"
            "r = (True, ''Fetched emails, but no valid new documents were created to add.'')" "disk w' = disk w"
        | (o6) svc d docs ids skipped where
          "authenticate_gmail E = Inr (Some svc)" "date_days_ago E days = Inr d"
          "create_langchain_documents_from_emails (parsedate_to_datetime E)
             (fetch_emails_for_embedding (b64decode E) svc (''after:'' @ d) None) = (docs, ids, skipped)"
          "docs \<noteq> []"
          "r = (True, ''Successfully added/updated '' @ show_int (int (length docs)) @ '' email documents.'')"
          "disk w' = Some (upsert_all docs ids (entries w))"
          "trace w' = trace w @ [EvChromaOpen, EvAuthenticate, EvFetch (''after:'' @ d), EvAddDocuments ids]"
        by blast
      then show thesis
      proof cases
        case o1 then show ?thesis using f by simp
      next
        case o2 then show ?thesis using f by (simp add: update_failed_def)
      next
        case o3 then show ?thesis using f by simp
      next
        case o4
        then show ?thesis using n [of svc] no_new_emails_is_not_added by simp
      next
        case o5
        then show ?thesis using n [of svc] no_valid_documents_is_not_added by simp
      next
        case o6 then show ?thesis using a by blast
      qed
    qed
    then show ?thesis
    proof cases
      case failed
      have "\<forall>n. \<not> reports_added n r" using failed(1) by (auto simp: reports_added_def)
      then show ?thesis using failed by blast
    next
      case nothing_new
      then show ?thesis by blast
    next
      case added
      have ra: "reports_added (length docs) r" using added(5) by (simp add: reports_added_def)
      have fr: "fst r" using added(5) by simp
      have "?written" using added(1,2,3,4,6,7) ra by blast
      then show ?thesis using ra fr added(1) by blast
    qed
  qed
  show ?thesis using p14 p5 by blast
qed

theorem update_writes_whole_batch_or_nothing_witness:
  "reports_added 2 (fst (update_email_vector_store_manual env_ex ''chroma_db_emails'' 2 world_ex)) \<and>
   disk (snd (update_email_vector_store_manual env_ex ''chroma_db_emails'' 2 world_ex)) \<noteq> disk world_ex \<and>
   trace (snd (update_email_vector_store_manual env_ex ''chroma_db_emails'' 2 world_ex))
     = [EvChromaOpen, EvAuthenticate, EvFetch ''after:2025/05/04'', EvAddDocuments [''m1'', ''m2'']] \<and>
   fst (fst (update_email_vector_store_manual (env_ex\<lparr>authenticate_gmail := Inr None\<rparr>)
               ''chroma_db_emails'' 2 world_ex)) = False \<and>
   disk (snd (update_email_vector_store_manual (env_ex\<lparr>authenticate_gmail := Inr None\<rparr>)
               ''chroma_db_emails'' 2 world_ex)) = disk world_ex \<and>
   fetch_emails_for_embedding decoder_ex service_broken ''after:2025/05/04'' None = [] \<and>
   update_email_vector_store_manual (env_ex\<lparr>authenticate_gmail := Inr (Some service_broken)\<rparr>)
               ''chroma_db_emails'' 2 world_ex
     = ((True, ''No new emails found since 2025/05/04.''),
        snd (update_email_vector_store_manual (env_ex\<lparr>authenticate_gmail := Inr (Some service_broken)\<rparr>)
               ''chroma_db_emails'' 2 world_ex)) \<and>
   disk (snd (update_email_vector_store_manual (env_ex\<lparr>authenticate_gmail := Inr (Some service_broken)\<rparr>)
               ''chroma_db_emails'' 2 world_ex)) = disk world_ex"
proof -
  let ?u = "update_email_vector_store_manual env_ex ''chroma_db_emails'' 2 world_ex"
  let ?E = "env_ex\<lparr>authenticate_gmail := Inr None\<rparr>"
  let ?v = "update_email_vector_store_manual ?E ''chroma_db_emails'' 2 world_ex"
  let ?F = "env_ex\<lparr>authenticate_gmail := Inr (Some service_broken)\<rparr>"
  let ?x = "update_email_vector_store_manual ?F ''chroma_db_emails'' 2 world_ex"
  have run: "?u = (fst ?u, snd ?u)" by simp
  have changed: "disk (snd ?u) \<noteq> disk world_ex" by code_simp
  have tr: "trace (snd ?u) = [EvChromaOpen, EvAuthenticate, EvFetch ''after:2025/05/04'', EvAddDocuments [''m1'', ''m2'']]"
    by code_simp
  from update_writes_whole_batch_or_nothing [OF run] changed
  obtain n where n: "reports_added n (fst ?u)" by blast
  have val: "fst ?u = (True, ''Successfully added/updated 2 email documents.'')" by code_simp
  have two: "reports_added 2 (fst ?u)" unfolding val by code_simp
  have run': "?v = (fst ?v, snd ?v)" by simp
  have noauth: "\<forall>svc. authenticate_gmail ?E \<noteq> Inr (Some svc)" by simp
  from update_writes_whole_batch_or_nothing [OF run'] noauth
  have none: "fst (fst ?v) = False \<and> disk (snd ?v) = disk world_ex" by blast
  have run'': "?x = (fst ?x, snd ?x)" by simp
  have lost: "fetch_emails_for_embedding decoder_ex service_broken ''after:2025/05/04'' None = []"
    by code_simp
  have h: "disk world_ex \<noteq> None \<and> chroma_open ?F = None \<and> downloader_imported ?F \<and>
           authenticate_gmail ?F = Inr (Some service_broken) \<and> date_days_ago ?F 2 = Inr ''2025/05/04'' \<and>
           fetch_emails_for_embedding (b64decode ?F) service_broken (''after:'' @ ''2025/05/04'') None = []"
    using lost by (simp add: env_ex_def world_ex_def)
  from update_writes_whole_batch_or_nothing [OF run''] h
  have same: "fst ?x = (True, ''No new emails found since '' @ ''2025/05/04'' @ ''.'') \<and>
              disk (snd ?x) = disk world_ex" by blast
  then have x: "?x = ((True, ''No new emails found since 2025/05/04.''), snd ?x)"
    by (cases ?x) simp
  show ?thesis using two changed tr none lost x same by simp
qed

text \<open>
  C6, amended. With the directory present, the store opened and the date computed: when
  authentication returns no service the update returns the failure pair with the fixed
  reason; when authentication raises, it returns the failure pair with the exception's
  message verbatim. A failure inside the harvester is not surfaced: when the list call
  fails, the harvester returns an empty list and the update returns the success pair
  saying that no new emails were found; when the get call of a message fails, that message
  is left out of the fetched batch; and once authentication has given a service, the
  update reports success whatever the service answers, unless the write itself fails.
\<close>

theorem update_surfaces_auth_failure_only:
  assumes "disk w \<noteq> None" and "chroma_open E = None" and "date_days_ago E days = Inr d"
    and "downloader_imported E"
  shows "(authenticate_gmail E = Inr None \<longrightarrow>
            fst (update_email_vector_store_manual E persist_dir days w) =
              (False, ''Update failed: Gmail authentication failed.''))
       \<and> (\<forall>e. authenticate_gmail E = Inl e \<longrightarrow>
            fst (update_email_vector_store_manual E persist_dir days w) =
              (False, ''An error occurred during the update: '' @ exn_msg e))
       \<and> (\<forall>svc. authenticate_gmail E = Inr (Some svc) \<and> list_messages svc (''after:'' @ d) = None \<longrightarrow>
            fst (update_email_vector_store_manual E persist_dir days w) =
              (True, ''No new emails found since '' @ d @ ''.''))
       \<and> (\<forall>svc m e. authenticate_gmail E = Inr (Some svc) \<and> messages_get svc m = Inl e \<longrightarrow>
            m \<notin> email_id ` set (fetch_emails_for_embedding (b64decode E) svc (''after:'' @ d) None))
       \<and> (\<forall>svc. authenticate_gmail E = Inr (Some svc) \<and> store_write E = None \<longrightarrow>
            fst (fst (update_email_vector_store_manual E persist_dir days w)))"
proof -
  have p123: "(authenticate_gmail E = Inr None \<longrightarrow>
            fst (update_email_vector_store_manual E persist_dir days w) =
              (False, ''Update failed: Gmail authentication failed.''))
       \<and> (\<forall>e. authenticate_gmail E = Inl e \<longrightarrow>
            fst (update_email_vector_store_manual E persist_dir days w) =
              (False, ''An error occurred during the update: '' @ exn_msg e))
       \<and> (\<forall>svc. authenticate_gmail E = Inr (Some svc) \<and> list_messages svc (''after:'' @ d) = None \<longrightarrow>
            fst (update_email_vector_store_manual E persist_dir days w) =
              (True, ''No new emails found since '' @ d @ ''.''))"
    using assms
    by (auto simp: update_email_vector_store_manual_def Let_def Chroma_def log_event_def
                   update_failed_def fetch_empty_when_list_fails)
  have p4: "\<forall>svc m e. authenticate_gmail E = Inr (Some svc) \<and> messages_get svc m = Inl e \<longrightarrow>
            m \<notin> email_id ` set (fetch_emails_for_embedding (b64decode E) svc (''after:'' @ d) None)"
    using fetch_leaves_out_failed_get by blast
  have p5: "\<forall>svc. authenticate_gmail E = Inr (Some svc) \<and> store_write E = None \<longrightarrow>
            fst (fst (update_email_vector_store_manual E persist_dir days w))"
    using assms
    by (auto simp: update_email_vector_store_manual_def Let_def Chroma_def log_event_def
                   add_documents_def split: prod.splits)
  show ?thesis using p123 p4 p5 by blast
qed

theorem update_surfaces_auth_failure_only_witness:
  "fst (update_email_vector_store_manual (env_ex\<lparr>authenticate_gmail := Inr None\<rparr>) ''chroma_db_emails'' 2 world_ex)
     = (False, ''Update failed: Gmail authentication failed.'') \<and>
   fst (update_email_vector_store_manual
          (env_ex\<lparr>authenticate_gmail := Inl (Exn ''RefreshError'' ''invalid_grant: Token has been expired or revoked.'')\<rparr>)
          ''chroma_db_emails'' 2 world_ex)
     = (False, ''An error occurred during the update: invalid_grant: Token has been expired or revoked.'') \<and>
   list_messages service_down ''after:2025/05/04'' = None \<and>
   fst (update_email_vector_store_manual (env_ex\<lparr>authenticate_gmail := Inr (Some service_down)\<rparr>) ''chroma_db_emails'' 2 world_ex)
     = (True, ''No new emails found since 2025/05/04.'') \<and>
   messages_get service_partial ''m9'' = Inl (Exn ''HttpError'' ''404 Not Found'') \<and>
   ''m9'' \<notin> email_id ` set (fetch_emails_for_embedding decoder_ex service_partial ''after:2025/05/04'' None) \<and>
   fst (update_email_vector_store_manual (env_ex\<lparr>authenticate_gmail := Inr (Some service_partial)\<rparr>) ''chroma_db_emails'' 2 world_ex)
     = (True, ''Successfully added/updated 1 email documents.'')"
proof -
  let ?E1 = "env_ex\<lparr>authenticate_gmail := Inr None\<rparr>"
  let ?E2 = "env_ex\<lparr>authenticate_gmail := Inl (Exn ''RefreshError'' ''invalid_grant: Token has been expired or revoked.'')\<rparr>"
  let ?E3 = "env_ex\<lparr>authenticate_gmail := Inr (Some service_down)\<rparr>"
  let ?E4 = "env_ex\<lparr>authenticate_gmail := Inr (Some service_partial)\<rparr>"
  have w: "disk world_ex \<noteq> None" by (simp add: world_ex_def)
  have c: "chroma_open ?E1 = None" "chroma_open ?E2 = None" "chroma_open ?E3 = None" "chroma_open ?E4 = None"
    by (simp_all add: env_ex_def)
  have d: "date_days_ago ?E1 2 = Inr ''2025/05/04''" "date_days_ago ?E2 2 = Inr ''2025/05/04''"
    "date_days_ago ?E3 2 = Inr ''2025/05/04''" "date_days_ago ?E4 2 = Inr ''2025/05/04''"
    by (simp_all add: env_ex_def)
  have i: "downloader_imported ?E1" "downloader_imported ?E2" "downloader_imported ?E3"
    "downloader_imported ?E4"
    by (simp_all add: env_ex_def)
  have l: "list_messages service_down ''after:2025/05/04'' = None"
    by (simp add: list_messages_def service_down_def)
  have l': "list_messages service_down (''after:'' @ ''2025/05/04'') = None"
    using l by simp
  have a1: "authenticate_gmail ?E1 = Inr None" by simp
  have a2: "authenticate_gmail ?E2 = Inl (Exn ''RefreshError'' ''invalid_grant: Token has been expired or revoked.'')"
    by simp
  have a3: "authenticate_gmail ?E3 = Inr (Some service_down)" by simp
  have a4: "authenticate_gmail ?E4 = Inr (Some service_partial) \<and> store_write ?E4 = None"
    by (simp add: env_ex_def)
  have g: "messages_get service_partial ''m9'' = Inl (Exn ''HttpError'' ''404 Not Found'')"
    by (simp add: service_partial_def get_ex_def)
  from update_surfaces_auth_failure_only [OF w c(1) d(1) i(1), of "''chroma_db_emails''"] a1
  have r1: "fst (update_email_vector_store_manual ?E1 ''chroma_db_emails'' 2 world_ex)
     = (False, ''Update failed: Gmail authentication failed.'')" by blast
  from update_surfaces_auth_failure_only [OF w c(2) d(2) i(2), of "''chroma_db_emails''"] a2
  have r2: "fst (update_email_vector_store_manual ?E2 ''chroma_db_emails'' 2 world_ex)
     = (False, ''An error occurred during the update: '' @
          exn_msg (Exn ''RefreshError'' ''invalid_grant: Token has been expired or revoked.''))" by blast
  from update_surfaces_auth_failure_only [OF w c(3) d(3) i(3), of "''chroma_db_emails''"] a3 l'
  have r3: "fst (update_email_vector_store_manual ?E3 ''chroma_db_emails'' 2 world_ex)
     = (True, ''No new emails found since '' @ ''2025/05/04'' @ ''.'')" by blast
  from update_surfaces_auth_failure_only [OF w c(4) d(4) i(4), of "''chroma_db_emails''"] a4 g
  have r4: "''m9'' \<notin> email_id ` set (fetch_emails_for_embedding (b64decode ?E4) service_partial
                                        (''after:'' @ ''2025/05/04'') None)"
    and r5: "fst (fst (update_email_vector_store_manual ?E4 ''chroma_db_emails'' 2 world_ex))"
    by blast+
  have r4': "''m9'' \<notin> email_id ` set (fetch_emails_for_embedding decoder_ex service_partial ''after:2025/05/04'' None)"
    using r4 by (simp add: env_ex_def)
  have r6: "fst (update_email_vector_store_manual ?E4 ''chroma_db_emails'' 2 world_ex)
     = (True, ''Successfully added/updated 1 email documents.'')" by code_simp
  show ?thesis using r1 r2 r3 l g r4' r6 by simp
qed

section \<open>Rebuild\<close>

lemmas rebuild_unfold =
  rebuild_branch_def Let_def rmtree_def makedirs_def log_event_def entries_def open_or_raise_def
  Chroma_def from_documents_def

lemma initialize_rebuild:
  "REBUILD_EMAIL_VECTOR_STORE cfg \<Longrightarrow> initialize_email_vector_store E cfg w = rebuild_branch E cfg w"
  by (simp add: initialize_email_vector_store_def split: prod.splits init_result.splits)

lemma rebuild_outcomes:
  assumes run: "rebuild_branch E cfg w = (r, w')"
  shows
    "prefix (trace w @ (if disk w \<noteq> None then [EvRmtree] else []) @ [EvMakedirs]) (trace w') \<and>
     ((\<not> downloader_imported E \<and>
         r = Stopped ''Email downloader functions not available. Cannot rebuild email store.'' \<and>
         disk w' = Some [])
    \<or> (downloader_imported E \<and> (\<exists>e. authenticate_gmail E = Inl e \<and> r = Raised e) \<and> disk w' = Some [])
    \<or> (downloader_imported E \<and> authenticate_gmail E = Inr None \<and>
         r = Stopped ''Gmail authentication failed. Cannot rebuild email store.'' \<and> disk w' = Some [])
    \<or> (downloader_imported E \<and>
         (\<exists>svc. authenticate_gmail E = Inr (Some svc) \<and>
            fst (create_langchain_documents_from_emails (parsedate_to_datetime E)
                  (fetch_emails_for_embedding (b64decode E) svc
                     (''newer_than:'' @ TIME_FRAME_FOR_EMAIL_VECTOR_STORE_BUILD cfg) None)) = []) \<and>
         disk w' = Some [] \<and>
         ((chroma_open E = None \<and> r = Ready) \<or> (\<exists>e. chroma_open E = Some e \<and> r = Raised e)))
    \<or> (downloader_imported E \<and>
         (\<exists>svc docs ids skipped. authenticate_gmail E = Inr (Some svc) \<and>
            create_langchain_documents_from_emails (parsedate_to_datetime E)
              (fetch_emails_for_embedding (b64decode E) svc
                 (''newer_than:'' @ TIME_FRAME_FOR_EMAIL_VECTOR_STORE_BUILD cfg) None) = (docs, ids, skipped) \<and>
            docs \<noteq> [] \<and>
            ((\<exists>e. store_write E = Some e \<and> r = Raised e \<and> disk w' = Some []) \<or>
             (store_write E = None \<and> r = Ready \<and> disk w' = Some (upsert_all docs ids []))))))"
proof (cases "downloader_imported E")
  case False
  then show ?thesis using run by (auto simp: rebuild_unfold)
next
  case True
  note imp = True
  show ?thesis
  proof (cases "authenticate_gmail E")
    case (Inl e)
    then show ?thesis using run imp by (auto simp: rebuild_unfold)
  next
    case (Inr so)
    note au = Inr
    show ?thesis
    proof (cases so)
      case None
      then show ?thesis using run imp au by (auto simp: rebuild_unfold)
    next
      case (Some svc)
      note sv = Some
      let ?emails = "fetch_emails_for_embedding (b64decode E) svc
                       (''newer_than:'' @ TIME_FRAME_FOR_EMAIL_VECTOR_STORE_BUILD cfg) None"
      obtain docs ids skipped where
        cr: "create_langchain_documents_from_emails (parsedate_to_datetime E) ?emails = (docs, ids, skipped)"
        by (cases "create_langchain_documents_from_emails (parsedate_to_datetime E) ?emails")
      show ?thesis
      proof (cases "?emails = []")
        case True
        then have "docs = []" using cr by (simp add: create_eq)
        then show ?thesis using run imp au sv cr True
          by (auto simp: rebuild_unfold split: option.splits)
      next
        case False
        note em = False
        show ?thesis
        proof (cases "docs = []")
          case True
          then show ?thesis using run imp au sv cr em
            by (auto simp: rebuild_unfold split: option.splits)
        next
          case False
          then show ?thesis using run imp au sv cr em
            by (auto simp: rebuild_unfold upsert_all_def split: option.splits)
        qed
      qed
    qed
  qed
qed



text \<open>
  C7, as stated, fails. When the harvester's list call fails, the rebuild ends normally
  with an empty store, and a later manual update runs on it and adds documents: a usable
  index remains. When the get call of one of two messages fails, the rebuild ends
  normally with an index of the other message alone: a partial index.
\<close>

theorem rebuild_leaves_usable_or_partial_index:
  "initialize_email_vector_store (env_ex\<lparr>authenticate_gmail := Inr (Some service_down)\<rparr>) cfg_ex world_ex
     = (Ready,
        \<lparr>disk = Some [],
         trace = [EvRmtree, EvMakedirs, EvAuthenticate, EvFetch ''newer_than:60d'', EvChromaOpen]\<rparr>) \<and>
   fst (update_email_vector_store_manual env_ex ''chroma_db_emails'' 2
          (snd (initialize_email_vector_store (env_ex\<lparr>authenticate_gmail := Inr (Some service_down)\<rparr>)
                  cfg_ex world_ex)))
     = (True, ''Successfully added/updated 2 email documents.'') \<and>
   messages_get service_partial ''m9'' = Inl (Exn ''HttpError'' ''404 Not Found'') \<and>
   fst (initialize_email_vector_store (env_ex\<lparr>authenticate_gmail := Inr (Some service_partial)\<rparr>)
          cfg_ex world_ex) = Ready \<and>
   map fst (entries (snd (initialize_email_vector_store
                            (env_ex\<lparr>authenticate_gmail := Inr (Some service_partial)\<rparr>) cfg_ex world_ex)))
     = [''m1'']"
proof -
  have a: "initialize_email_vector_store (env_ex\<lparr>authenticate_gmail := Inr (Some service_down)\<rparr>) cfg_ex world_ex
     = (Ready,
        \<lparr>disk = Some [],
         trace = [EvRmtree, EvMakedirs, EvAuthenticate, EvFetch ''newer_than:60d'', EvChromaOpen]\<rparr>)"
    by code_simp
  have b: "fst (update_email_vector_store_manual env_ex ''chroma_db_emails'' 2
          (snd (initialize_email_vector_store (env_ex\<lparr>authenticate_gmail := Inr (Some service_down)\<rparr>)
                  cfg_ex world_ex)))
     = (True, ''Successfully added/updated 2 email documents.'')"
    by code_simp
  have c: "messages_get service_partial ''m9'' = Inl (Exn ''HttpError'' ''404 Not Found'')"
    by (simp add: service_partial_def get_ex_def)
  have d: "fst (initialize_email_vector_store (env_ex\<lparr>authenticate_gmail := Inr (Some service_partial)\<rparr>)
          cfg_ex world_ex) = Ready"
    by code_simp
  have e: "map fst (entries (snd (initialize_email_vector_store
                            (env_ex\<lparr>authenticate_gmail := Inr (Some service_partial)\<rparr>) cfg_ex world_ex)))
     = [''m1'']"
    by code_simp
  show ?thesis using a b c d e by simp
qed

text \<open>
  C7, amended. A rebuild removes the existing directory and recreates it empty before
  anything else: these are the first events it adds to the trace, ahead of authentication
  and fetching. Afterwards the index holds either nothing or exactly the documents built
  from the fetched batch on an empty store, so the prior index is never restored. When
  authentication returns no service the script is stopped, and when it raises the
  exception leaves the function; in both cases the directory exists and is empty. When
  the harvester's list call fails and the store opens, the rebuild ends normally with an
  empty store. When the batch gives documents and the write succeeds, the rebuild ends
  normally with an index of exactly these documents, none of which comes from a message
  whose get call failed.
\<close>

theorem rebuild_discards_prior_index:
  assumes rebuild: "REBUILD_EMAIL_VECTOR_STORE cfg"
    and run: "initialize_email_vector_store E cfg w = (r, w')"
  shows
    "prefix (trace w @ (if disk w \<noteq> None then [EvRmtree] else []) @ [EvMakedirs]) (trace w') \<and>
     (disk w' = Some [] \<or>
      (\<exists>svc docs ids skipped. authenticate_gmail E = Inr (Some svc) \<and>
         create_langchain_documents_from_emails (parsedate_to_datetime E)
           (fetch_emails_for_embedding (b64decode E) svc
              (''newer_than:'' @ TIME_FRAME_FOR_EMAIL_VECTOR_STORE_BUILD cfg) None) = (docs, ids, skipped) \<and>
         r = Ready \<and> disk w' = Some (upsert_all docs ids []))) \<and>
     (downloader_imported E \<and> authenticate_gmail E = Inr None \<longrightarrow>
        r = Stopped ''Gmail authentication failed. Cannot rebuild email store.'' \<and> disk w' = Some []) \<and>
     (\<forall>e. downloader_imported E \<and> authenticate_gmail E = Inl e \<longrightarrow> r = Raised e \<and> disk w' = Some []) \<and>
     (\<forall>svc. downloader_imported E \<and> chroma_open E = None \<and> authenticate_gmail E = Inr (Some svc) \<and>
            list_messages svc (''newer_than:'' @ TIME_FRAME_FOR_EMAIL_VECTOR_STORE_BUILD cfg) = None
            \<longrightarrow> r = Ready \<and> disk w' = Some []) \<and>
     (\<forall>svc docs ids skipped.
         downloader_imported E \<and> store_write E = None \<and> authenticate_gmail E = Inr (Some svc) \<and>
         create_langchain_documents_from_emails (parsedate_to_datetime E)
           (fetch_emails_for_embedding (b64decode E) svc
              (''newer_than:'' @ TIME_FRAME_FOR_EMAIL_VECTOR_STORE_BUILD cfg) None) = (docs, ids, skipped) \<and>
         docs \<noteq> []
         \<longrightarrow> r = Ready \<and> disk w' = Some (upsert_all docs ids []) \<and>
             (\<forall>m e. messages_get svc m = Inl e \<longrightarrow> m \<notin> set ids))"
proof -
  have rb: "rebuild_branch E cfg w = (r, w')"
    using rebuild run by (simp add: initialize_rebuild)
  note out = rebuild_outcomes [OF rb]
  let ?q = "''newer_than:'' @ TIME_FRAME_FOR_EMAIL_VECTOR_STORE_BUILD cfg"
  have p1: "prefix (trace w @ (if disk w \<noteq> None then [EvRmtree] else []) @ [EvMakedirs]) (trace w')"
    using out by blast
  have p2: "disk w' = Some [] \<or>
      (\<exists>svc docs ids skipped. authenticate_gmail E = Inr (Some svc) \<and>
         create_langchain_documents_from_emails (parsedate_to_datetime E)
           (fetch_emails_for_embedding (b64decode E) svc ?q None) = (docs, ids, skipped) \<and>
         r = Ready \<and> disk w' = Some (upsert_all docs ids []))"
    using out by blast
  have p3: "downloader_imported E \<and> authenticate_gmail E = Inr None \<longrightarrow>
        r = Stopped ''Gmail authentication failed. Cannot rebuild email store.'' \<and> disk w' = Some []"
    using out by auto
  have p4: "\<forall>e. downloader_imported E \<and> authenticate_gmail E = Inl e \<longrightarrow> r = Raised e \<and> disk w' = Some []"
    using out by auto
  have p5: "\<forall>svc. downloader_imported E \<and> chroma_open E = None \<and> authenticate_gmail E = Inr (Some svc) \<and>
            list_messages svc ?q = None \<longrightarrow> r = Ready \<and> disk w' = Some []"
  proof (intro allI impI)
    fix svc
    assume h: "downloader_imported E \<and> chroma_open E = None \<and> authenticate_gmail E = Inr (Some svc) \<and>
            list_messages svc ?q = None"
    then have "fetch_emails_for_embedding (b64decode E) svc ?q None = []"
      by (simp add: fetch_empty_when_list_fails)
    then have "create_langchain_documents_from_emails (parsedate_to_datetime E)
           (fetch_emails_for_embedding (b64decode E) svc ?q None) = ([], [], 0)"
      by (simp add: create_eq)
    then show "r = Ready \<and> disk w' = Some []" using out h by auto
  qed
  have p6: "\<forall>svc docs ids skipped.
         downloader_imported E \<and> store_write E = None \<and> authenticate_gmail E = Inr (Some svc) \<and>
         create_langchain_documents_from_emails (parsedate_to_datetime E)
           (fetch_emails_for_embedding (b64decode E) svc ?q None) = (docs, ids, skipped) \<and>
         docs \<noteq> []
         \<longrightarrow> r = Ready \<and> disk w' = Some (upsert_all docs ids []) \<and>
             (\<forall>m e. messages_get svc m = Inl e \<longrightarrow> m \<notin> set ids)"
  proof (intro allI impI)
    fix svc docs ids skipped
    assume h: "downloader_imported E \<and> store_write E = None \<and> authenticate_gmail E = Inr (Some svc) \<and>
         create_langchain_documents_from_emails (parsedate_to_datetime E)
           (fetch_emails_for_embedding (b64decode E) svc ?q None) = (docs, ids, skipped) \<and>
         docs \<noteq> []"
    then have a: "r = Ready \<and> disk w' = Some (upsert_all docs ids [])" using out by auto
    have "set ids \<subseteq> email_id ` set (fetch_emails_for_embedding (b64decode E) svc ?q None)"
      using h by (auto simp: create_eq)
    then have "\<forall>m e. messages_get svc m = Inl e \<longrightarrow> m \<notin> set ids"
      using fetch_leaves_out_failed_get by blast
    then show "r = Ready \<and> disk w' = Some (upsert_all docs ids []) \<and>
             (\<forall>m e. messages_get svc m = Inl e \<longrightarrow> m \<notin> set ids)" using a by blast
  qed
  show ?thesis using p1 p2 p3 p4 p5 p6 by blast
qed

theorem rebuild_discards_prior_index_witness:
  "REBUILD_EMAIL_VECTOR_STORE cfg_ex \<and>
   entries world_ex = [(''m0'', doc_m0)] \<and>
   initialize_email_vector_store (env_ex\<lparr>authenticate_gmail := Inr None\<rparr>) cfg_ex world_ex =
     (Stopped ''Gmail authentication failed. Cannot rebuild email store.'',
      \<lparr>disk = Some [], trace = [EvRmtree, EvMakedirs, EvAuthenticate]\<rparr>) \<and>
   initialize_email_vector_store
       (env_ex\<lparr>authenticate_gmail := Inl (Exn ''RefreshError'' ''invalid_grant'')\<rparr>) cfg_ex world_ex =
     (Raised (Exn ''RefreshError'' ''invalid_grant''),
      \<lparr>disk = Some [], trace = [EvRmtree, EvMakedirs, EvAuthenticate]\<rparr>) \<and>
   list_messages service_down ''newer_than:60d'' = None \<and>
   fst (initialize_email_vector_store (env_ex\<lparr>authenticate_gmail := Inr (Some service_down)\<rparr>)
          cfg_ex world_ex) = Ready \<and>
   disk (snd (initialize_email_vector_store (env_ex\<lparr>authenticate_gmail := Inr (Some service_down)\<rparr>)
                cfg_ex world_ex)) = Some [] \<and>
   messages_get service_partial ''m9'' = Inl (Exn ''HttpError'' ''404 Not Found'') \<and>
   fst (initialize_email_vector_store (env_ex\<lparr>authenticate_gmail := Inr (Some service_partial)\<rparr>)
          cfg_ex world_ex) = Ready \<and>
   disk (snd (initialize_email_vector_store (env_ex\<lparr>authenticate_gmail := Inr (Some service_partial)\<rparr>)
                cfg_ex world_ex))
     = Some [(''m1'', make_document email_m1 (Some 1746525600))]"
proof -
  let ?E1 = "env_ex\<lparr>authenticate_gmail := Inr None\<rparr>"
  let ?E2 = "env_ex\<lparr>authenticate_gmail := Inr (Some service_down)\<rparr>"
  let ?E3 = "env_ex\<lparr>authenticate_gmail := Inl (Exn ''RefreshError'' ''invalid_grant'')\<rparr>"
  let ?E4 = "env_ex\<lparr>authenticate_gmail := Inr (Some service_partial)\<rparr>"
  let ?i1 = "initialize_email_vector_store ?E1 cfg_ex world_ex"
  let ?i2 = "initialize_email_vector_store ?E2 cfg_ex world_ex"
  let ?i3 = "initialize_email_vector_store ?E3 cfg_ex world_ex"
  let ?i4 = "initialize_email_vector_store ?E4 cfg_ex world_ex"
  let ?d1 = "make_document email_m1 (Some 1746525600)"
  have rb: "REBUILD_EMAIL_VECTOR_STORE cfg_ex" by (simp add: cfg_ex_def)
  have prior: "entries world_ex = [(''m0'', doc_m0)]" by (simp add: entries_def world_ex_def)
  have run1: "?i1 = (fst ?i1, snd ?i1)" by simp
  have run2: "?i2 = (fst ?i2, snd ?i2)" by simp
  have run3: "?i3 = (fst ?i3, snd ?i3)" by simp
  have run4: "?i4 = (fst ?i4, snd ?i4)" by simp
  have a1: "downloader_imported ?E1 \<and> authenticate_gmail ?E1 = Inr None" by (simp add: env_ex_def)
  have a3: "downloader_imported ?E3 \<and> authenticate_gmail ?E3 = Inl (Exn ''RefreshError'' ''invalid_grant'')"
    by (simp add: env_ex_def)
  have l: "list_messages service_down (''newer_than:'' @ TIME_FRAME_FOR_EMAIL_VECTOR_STORE_BUILD cfg_ex) = None"
    by (simp add: list_messages_def service_down_def)
  have a2: "downloader_imported ?E2 \<and> chroma_open ?E2 = None \<and> authenticate_gmail ?E2 = Inr (Some service_down)"
    by (simp add: env_ex_def)
  have g: "messages_get service_partial ''m9'' = Inl (Exn ''HttpError'' ''404 Not Found'')"
    by (simp add: service_partial_def get_ex_def)
  have f4: "fetch_emails_for_embedding decoder_ex service_partial ''newer_than:60d'' None = [email_m1]"
    by code_simp
  have c4: "create_langchain_documents_from_emails (parsedate_to_datetime ?E4)
           (fetch_emails_for_embedding (b64decode ?E4) service_partial
              (''newer_than:'' @ TIME_FRAME_FOR_EMAIL_VECTOR_STORE_BUILD cfg_ex) None) = ([?d1], [''m1''], 0)"
    using f4 by (simp add: env_ex_def cfg_ex_def create_eq email_m1_def parse_timestamp_def parser_ex_def)
  have a4: "downloader_imported ?E4 \<and> store_write ?E4 = None \<and> authenticate_gmail ?E4 = Inr (Some service_partial)"
    by (simp add: env_ex_def)
  from rebuild_discards_prior_index [OF rb run1] a1
  have r1: "fst ?i1 = Stopped ''Gmail authentication failed. Cannot rebuild email store.'' \<and>
            disk (snd ?i1) = Some []" by blast
  from rebuild_discards_prior_index [OF rb run2] a2 l
  have r2: "fst ?i2 = Ready \<and> disk (snd ?i2) = Some []" by blast
  from rebuild_discards_prior_index [OF rb run3] a3
  have r3: "fst ?i3 = Raised (Exn ''RefreshError'' ''invalid_grant'') \<and> disk (snd ?i3) = Some []" by blast
  have ne: "[?d1] \<noteq> []" by simp
  from rebuild_discards_prior_index [OF rb run4] a4 c4 ne
  have r4: "fst ?i4 = Ready \<and> disk (snd ?i4) = Some (upsert_all [?d1] [''m1''] [])" by blast
  have u: "upsert_all [?d1] [''m1''] [] = [(''m1'', ?d1)]" by (simp add: upsert_all_def)
  have t1: "trace (snd ?i1) = [EvRmtree, EvMakedirs, EvAuthenticate]" by code_simp
  have t3: "trace (snd ?i3) = [EvRmtree, EvMakedirs, EvAuthenticate]" by code_simp
  have l': "list_messages service_down ''newer_than:60d'' = None"
    by (simp add: list_messages_def service_down_def)
  have e1: "?i1 = (Stopped ''Gmail authentication failed. Cannot rebuild email store.'',
      \<lparr>disk = Some [], trace = [EvRmtree, EvMakedirs, EvAuthenticate]\<rparr>)"
    using r1 t1 by (cases ?i1) auto
  have e3: "?i3 = (Raised (Exn ''RefreshError'' ''invalid_grant''),
      \<lparr>disk = Some [], trace = [EvRmtree, EvMakedirs, EvAuthenticate]\<rparr>)"
    using r3 t3 by (cases ?i3) auto
  show ?thesis using rb prior r2 l' e1 e3 g r4 u by simp
qed

section \<open>The self-query fallback\<close>

text \<open>
  C2, as stated, fails: with a self-query retriever that was created successfully, a
  failure of the filter construction for a query is the result of \<open>retrieve\<close>, where
  the Standard strategy returns a document; the email tool turns it into an error message.
\<close>

theorem self_query_filter_failure_is_an_error:
  "from_llm env_ex = None \<and>
   query_constructor env_ex ''lunch?'' = Inl filter_error \<and>
   retrieve env_ex (get_email_self_query_retriever env_ex cfg_ex) [(''m0'', doc_m0)] ''lunch?''
     = Inl filter_error \<and>
   retrieve env_ex (get_email_standard_retriever cfg_ex) [(''m0'', doc_m0)] ''lunch?''
     = Inr [doc_m0] \<and>
   invoke_email_rag_chain env_ex (get_email_self_query_retriever env_ex cfg_ex) [(''m0'', doc_m0)]
       (StrInput ''lunch?'')
     = (''Error invoking Email RAG chain: Parsing text failed'', None)"
proof -
  have a: "from_llm env_ex = None \<and> query_constructor env_ex ''lunch?'' = Inl filter_error"
    by (simp add: env_ex_def)
  have b: "retrieve env_ex (get_email_self_query_retriever env_ex cfg_ex) [(''m0'', doc_m0)] ''lunch?''
             = Inl filter_error"
    by code_simp
  have c: "retrieve env_ex (get_email_standard_retriever cfg_ex) [(''m0'', doc_m0)] ''lunch?''
             = Inr [doc_m0]"
    by code_simp
  have d: "invoke_email_rag_chain env_ex (get_email_self_query_retriever env_ex cfg_ex) [(''m0'', doc_m0)]
             (StrInput ''lunch?'')
           = (''Error invoking Email RAG chain: Parsing text failed'', None)"
    by code_simp
  show ?thesis using a b c d by simp
qed

text \<open>
  C2, amended. The fallback is taken when the self-query retriever cannot be created:
  then the selector returns the Standard retriever, and every query is answered as the
  Standard strategy answers it. When the retriever was created and the filter construction
  fails for a query, \<open>retrieve\<close> fails with that exception, and the email tool
  returns the error message with the exception's text and no context.
\<close>

theorem self_query_fallback_at_construction:
  "(from_llm E = Some e \<longrightarrow>
      get_email_self_query_retriever E cfg = get_email_standard_retriever cfg \<and>
      retrieve E (get_email_self_query_retriever E cfg) s q =
        Inr (similarity_search (distance E) q (NUMBER_OF_EMAILS_RETRIEVED cfg) None s) \<and>
      invoke_email_rag_chain E (get_email_self_query_retriever E cfg) s i =
        invoke_email_rag_chain E (get_email_standard_retriever cfg) s i)
   \<and> (from_llm E = None \<and> query_constructor E q = Inl e' \<longrightarrow>
        retrieve E (get_email_self_query_retriever E cfg) s q = Inl e' \<and>
        invoke_email_rag_chain E (get_email_self_query_retriever E cfg) s (StrInput q) =
          (''Error invoking Email RAG chain: '' @ exn_msg e', None))"
  by (simp add: get_email_self_query_retriever_def get_email_standard_retriever_def retrieve_def
                invoke_email_rag_chain_def)

theorem self_query_fallback_at_construction_witness:
  "retrieve (env_ex\<lparr>from_llm := Some (Exn ''ValueError'' ''unsupported vector store'')\<rparr>)
      (get_email_self_query_retriever
         (env_ex\<lparr>from_llm := Some (Exn ''ValueError'' ''unsupported vector store'')\<rparr>) cfg_ex)
      [(''m0'', doc_m0)] ''lunch?'' = Inr [doc_m0] \<and>
   retrieve env_ex (get_email_self_query_retriever env_ex cfg_ex) [(''m0'', doc_m0)] ''lunch?''
     = Inl filter_error"
proof -
  let ?E1 = "env_ex\<lparr>from_llm := Some (Exn ''ValueError'' ''unsupported vector store'')\<rparr>"
  have f1: "from_llm ?E1 = Some (Exn ''ValueError'' ''unsupported vector store'')" by simp
  have f2: "from_llm env_ex = None \<and> query_constructor env_ex ''lunch?'' = Inl filter_error"
    by (simp add: env_ex_def)
  from self_query_fallback_at_construction [of ?E1 _ cfg_ex "[(''m0'', doc_m0)]" "''lunch?''"] f1
  have r1: "retrieve ?E1 (get_email_self_query_retriever ?E1 cfg_ex) [(''m0'', doc_m0)] ''lunch?'' =
        Inr (similarity_search (distance ?E1) ''lunch?'' (NUMBER_OF_EMAILS_RETRIEVED cfg_ex) None [(''m0'', doc_m0)])"
    by blast
  have v: "similarity_search (distance ?E1) ''lunch?'' (NUMBER_OF_EMAILS_RETRIEVED cfg_ex) None [(''m0'', doc_m0)]
             = [doc_m0]"
    by (simp add: similarity_search_def cfg_ex_def)
  from self_query_fallback_at_construction [of env_ex _ cfg_ex "[(''m0'', doc_m0)]" "''lunch?''" _ filter_error] f2
  have r2: "retrieve env_ex (get_email_self_query_retriever env_ex cfg_ex) [(''m0'', doc_m0)] ''lunch?''
     = Inl filter_error" by blast
  show ?thesis using r1 v r2 by simp
qed


end
